theory Spec2Isabelle
  imports Complex_Main "HOL-Library.Word" "HOL-Library.Product_Lexorder"
begin

section \<open>Shared data model\<close>

type_synonym uuid = "128 word"

datatype py_error =
    ZeroDivisionError
  | IndexError
  | ValueError string
  | InvalidQuestionError string
  | DocumentNotReadyError string
  | OpenAIConfigurationError string
  | QAError string

record Settings =
  ocr_fallback_enabled :: bool
  ocr_trigger_min_words :: int
  ocr_trigger_min_alnum_ratio :: real
  openai_api_key :: "string option"
  openai_embedding_dimensions :: int
  retrieval_top_k :: int
  retrieval_max_context_chunks :: int
  answer_max_evidence_items :: int
  retrieval_min_keyword_overlap :: int
  evidence_question_weight :: real
  evidence_answer_weight :: real
  evidence_relative_score_threshold :: real
  evidence_drop_ratio_stop :: real
  evidence_min_absolute_score :: real
  retrieval_max_vector_distance :: real
  minimum_evidence_items :: int
  require_llm_citations :: bool

definition default_settings :: Settings where
  "default_settings = \<lparr>
     ocr_fallback_enabled = True,
     ocr_trigger_min_words = 18,
     ocr_trigger_min_alnum_ratio = 0.60,
     openai_api_key = None,
     openai_embedding_dimensions = 1536,
     retrieval_top_k = 8,
     retrieval_max_context_chunks = 6,
     answer_max_evidence_items = 0,
     retrieval_min_keyword_overlap = 1,
     evidence_question_weight = 0.2,
     evidence_answer_weight = 0.8,
     evidence_relative_score_threshold = 0.60,
     evidence_drop_ratio_stop = 0.72,
     evidence_min_absolute_score = 0.20,
     retrieval_max_vector_distance = 1.2,
     minimum_evidence_items = 1,
     require_llm_citations = True \<rparr>"

record Span =
  span_id :: int
  span_document_id :: uuid
  span_page_id :: int
  span_index :: int
  span_text :: string
  span_x1 :: real
  span_y1 :: real
  span_x2 :: real
  span_y2 :: real
  span_char_start :: "int option"
  span_char_end :: "int option"

section \<open>Document processing: OCR arbitration\<close>

definition OCR_SCORE_MARGIN :: real where
  "OCR_SCORE_MARGIN = 0.04"

text \<open>Python's true division of two ints: raises on a zero divisor.\<close>

definition py_truediv :: "int \<Rightarrow> int \<Rightarrow> py_error + real" where
  "py_truediv a b = (if b = 0 then Inl ZeroDivisionError else Inr (real_of_int a / real_of_int b))"

text \<open>
  \<^verbatim>\<open>_word_quality_score\<close>. Floats are modelled as reals; the division is the fallible
  Python one, so a zero divisor would show up as \<open>Inl ZeroDivisionError\<close>.
\<close>

definition word_quality_score :: "int \<times> real \<Rightarrow> Settings \<Rightarrow> py_error + real" where
  "word_quality_score word_metrics settings =
     (case word_metrics of (word_count, alnum_ratio) \<Rightarrow>
        let word_target = max 1 (ocr_trigger_min_words settings) in
        (case py_truediv word_count word_target of
          Inl e \<Rightarrow> Inl e
        | Inr q \<Rightarrow>
            let word_score = min 1 q in
            Inr ((word_score * 0.55) + (alnum_ratio * 0.45))))"

text \<open>\<^verbatim>\<open>_should_use_ocr\<close>; \<open>native_count // 2\<close> is Python's floor division.\<close>

definition should_use_ocr :: "int \<times> real \<Rightarrow> int \<times> real \<Rightarrow> Settings \<Rightarrow> py_error + bool" where
  "should_use_ocr native_metrics ocr_metrics settings =
     (case native_metrics of (native_count, native_ratio) \<Rightarrow>
      case ocr_metrics of (ocr_count, ocr_ratio) \<Rightarrow>
        if ocr_count = 0 then Inr False
        else if native_count = 0 then Inr True
        else
          (case word_quality_score native_metrics settings of
            Inl e \<Rightarrow> Inl e
          | Inr native_score \<Rightarrow>
          (case word_quality_score ocr_metrics settings of
            Inl e \<Rightarrow> Inl e
          | Inr ocr_score \<Rightarrow>
            if ocr_score \<ge> native_score + OCR_SCORE_MARGIN then Inr True
            else if native_count < ocr_trigger_min_words settings \<and> ocr_count > native_count
              then Inr True
            else if ocr_ratio \<ge> native_ratio + 0.12
                    \<and> ocr_count \<ge> max 3 (native_count div 2) then Inr True
            else Inr False)))"

text \<open>
  The arbitration rule as the specification words it: the score with \<open>MIN_WORDS = 18\<close>,
  and the third condition comparing the OCR word count with half the native count
  as a number, not as a floor.
\<close>

definition spec_score :: "int \<times> real \<Rightarrow> real" where
  "spec_score m = 0.55 * min 1 (real_of_int (fst m) / 18) + 0.45 * snd m"

definition spec_use_ocr :: "int \<times> real \<Rightarrow> int \<times> real \<Rightarrow> bool" where
  "spec_use_ocr N O' =
     (spec_score O' \<ge> spec_score N + 0.04
      \<or> (fst N < 18 \<and> fst O' > fst N)
      \<or> (snd O' \<ge> snd N + 0.12 \<and> real_of_int (fst O') \<ge> max 3 (real_of_int (fst N) / 2)))"

text \<open>The same rule with the floor the code takes.\<close>

definition floor_use_ocr :: "int \<times> real \<Rightarrow> int \<times> real \<Rightarrow> bool" where
  "floor_use_ocr N O' =
     (spec_score O' \<ge> spec_score N + 0.04
      \<or> (fst N < 18 \<and> fst O' > fst N)
      \<or> (snd O' \<ge> snd N + 0.12 \<and> fst O' \<ge> max 3 (fst N div 2)))"

section \<open>Document processing: sliding-window chunking\<close>

definition CHUNK_MAX_CHARS :: nat where
  "CHUNK_MAX_CHARS = 900"

definition CHUNK_OVERLAP_SPANS :: nat where
  "CHUNK_OVERLAP_SPANS = 20"

text \<open>
  The inner \<^verbatim>\<open>while end < len(span_refs)\<close> loop of \<^verbatim>\<open>_chunk_span_window\<close>: it returns
  the value of \<open>end\<close> at which the loop stops. The index is always in range when read.
\<close>

function pack_window :: "(Span \<times> int) list \<Rightarrow> nat \<Rightarrow> nat \<Rightarrow> nat \<Rightarrow> nat" where
  "pack_window span_refs start en total_chars =
     (if en < length span_refs then
        (let text_len = length (span_text (fst (span_refs ! en)))
                          + (if total_chars \<noteq> 0 then 1 else 0)
         in if total_chars + text_len > CHUNK_MAX_CHARS \<and> en > start then en
            else pack_window span_refs start (en + 1) (total_chars + text_len))
      else en)"
  by pat_completeness auto
termination
  by (relation "measure (\<lambda>(span_refs, start, en, total_chars). length span_refs - en)") auto

text \<open>
  The outer \<^verbatim>\<open>while start < len(span_refs)\<close> loop. \<open>end - CHUNK_OVERLAP_SPANS\<close> is
  negative in Python when \<open>end < 20\<close>; the maximum with \<open>start + 1\<close> is then \<open>start + 1\<close>,
  which the truncating subtraction on \<open>nat\<close> gives as well.
\<close>

function chunk_loop :: "(Span \<times> int) list \<Rightarrow> nat \<Rightarrow> (nat \<times> nat) list \<Rightarrow> (nat \<times> nat) list" where
  "chunk_loop span_refs start windows =
     (if start < length span_refs then
        (let en = pack_window span_refs start start 0;
             windows' = windows @ [(start, en)]
         in if en \<ge> length span_refs then windows'
            else chunk_loop span_refs (max (en - CHUNK_OVERLAP_SPANS) (start + 1)) windows')
      else windows)"
  by pat_completeness auto
termination
  by (relation "measure (\<lambda>(span_refs, start, windows). length span_refs - start)") auto

definition chunk_span_window :: "(Span \<times> int) list \<Rightarrow> (nat \<times> nat) list" where
  "chunk_span_window span_refs = (if span_refs = [] then [] else chunk_loop span_refs 0 [])"

text \<open>A span whose text has the given length; the other fields play no part in chunking.\<close>

definition span_of_len :: "nat \<Rightarrow> Span" where
  "span_of_len n = \<lparr> span_id = 0, span_document_id = 0, span_page_id = 0, span_index = 0,
     span_text = replicate n (CHR ''a''), span_x1 = 0, span_y1 = 0, span_x2 = 1, span_y2 = 1,
     span_char_start = None, span_char_end = None \<rparr>"

definition s3_span_refs :: "(Span \<times> int) list" where
  "s3_span_refs = replicate 45 (span_of_len 20, 1)"

declare pack_window.simps [simp del]
declare chunk_loop.simps [simp del]

section \<open>Question answering: strings and tokens\<close>

text \<open>
  Strings are lists of characters and every character is an ASCII byte: \<^verbatim>\<open>str.lower\<close> maps
  \<open>A..Z\<close> to \<open>a..z\<close> and leaves the rest, \<^verbatim>\<open>str.strip\<close> removes the ASCII
  whitespace characters at both ends.
\<close>

definition ascii_upper :: string where
  "ascii_upper = ''ABCDEFGHIJKLMNOPQRSTUVWXYZ''"

definition ascii_lower :: string where
  "ascii_lower = ''abcdefghijklmnopqrstuvwxyz''"

definition ascii_digits :: string where
  "ascii_digits = ''0123456789''"

definition lower_char :: "char \<Rightarrow> char" where
  "lower_char c = (case map_of (zip ascii_upper ascii_lower) c of Some l \<Rightarrow> l | None \<Rightarrow> c)"

definition py_lower :: "string \<Rightarrow> string" where
  "py_lower s = map lower_char s"

definition is_space :: "char \<Rightarrow> bool" where
  "is_space c = (c \<in> set [CHR '' '', CHR 0x09, CHR 0x0A, CHR 0x0B, CHR 0x0C, CHR 0x0D,
                            CHR 0x1C, CHR 0x1D, CHR 0x1E, CHR 0x1F])"

definition py_strip :: "string \<Rightarrow> string" where
  "py_strip s = rev (dropWhile is_space (rev (dropWhile is_space s)))"

text \<open>\<^verbatim>\<open>" ".join(parts)\<close>.\<close>

fun join_space :: "string list \<Rightarrow> string" where
  "join_space [] = []"
| "join_space [s] = s"
| "join_space (s # t # rest) = s @ '' '' @ join_space (t # rest)"

text \<open>\<^verbatim>\<open>needle in haystack\<close> and \<^verbatim>\<open>s.startswith(prefix)\<close> on strings.\<close>

definition startswith :: "string \<Rightarrow> string \<Rightarrow> bool" where
  "startswith s pre = (take (length pre) s = pre)"

fun py_in :: "string \<Rightarrow> string \<Rightarrow> bool" where
  "py_in needle [] = (needle = [])"
| "py_in needle (c # cs) = (startswith (c # cs) needle \<or> py_in needle cs)"

text \<open>
  \<^verbatim>\<open>re.findall(r"[a-zA-Z0-9]+", s)\<close>: the maximal runs of ASCII letters and digits, left to
  right. The first argument is the run being read.
\<close>

definition is_alnum :: "char \<Rightarrow> bool" where
  "is_alnum c = (c \<in> set (ascii_lower @ ascii_upper @ ascii_digits))"

fun findall_alnum :: "string \<Rightarrow> string \<Rightarrow> string list" where
  "findall_alnum cur [] = (if cur = [] then [] else [cur])"
| "findall_alnum cur (c # cs) =
     (if is_alnum c then findall_alnum (cur @ [c]) cs
      else (if cur = [] then [] else [cur]) @ findall_alnum [] cs)"

text \<open>\<^verbatim>\<open>_normalize_token\<close>: \<^verbatim>\<open>re.sub(r"[^a-z0-9]+", "", token.lower())\<close>.\<close>

definition normalize_token :: "string \<Rightarrow> string" where
  "normalize_token token = filter (\<lambda>c. c \<in> set (ascii_lower @ ascii_digits)) (py_lower token)"

definition QUESTION_STOPWORDS :: "string list" where
  "QUESTION_STOPWORDS = [''the'', ''a'', ''an'', ''of'', ''to'', ''in'', ''on'', ''for'', ''and'',
     ''or'', ''is'', ''was'', ''were'', ''are'', ''be'', ''who'', ''what'', ''when'', ''where'',
     ''which'', ''how'', ''did'', ''does'', ''do'', ''from'', ''with'', ''by'', ''at'', ''as'',
     ''about'']"

text \<open>
  A Python \<^verbatim>\<open>set[str]\<close> is modelled as a list without duplicates; the order in which a set
  is iterated plays no part below, because sums are taken over the reals.
\<close>

definition tokenize_question_terms :: "string \<Rightarrow> string list" where
  "tokenize_question_terms question =
     (let tokens = map normalize_token (findall_alnum [] (py_lower question))
      in remdups (filter (\<lambda>token. token \<noteq> [] \<and> length token \<ge> 3
                                   \<and> token \<notin> set QUESTION_STOPWORDS) tokens))"

text \<open>
  The two set comprehensions at the head of \<^verbatim>\<open>_keyword_overlap_count\<close> and of
  \<^verbatim>\<open>_keyword_overlap_weighted_score\<close>: the tokens of the line, then the tokens kept.
\<close>

definition line_tokens :: "string \<Rightarrow> string list" where
  "line_tokens text = remdups (map normalize_token (findall_alnum [] (py_lower text)))"

definition normalized_tokens :: "string \<Rightarrow> string list" where
  "normalized_tokens text =
     filter (\<lambda>token. token \<noteq> [] \<and> length token \<ge> 3 \<and> token \<notin> set QUESTION_STOPWORDS)
       (line_tokens text)"

text \<open>\<^verbatim>\<open>any(term == token or term in token or token in term for token in tokens)\<close>.\<close>

definition term_hits :: "string \<Rightarrow> string list \<Rightarrow> bool" where
  "term_hits term tokens =
     list_ex (\<lambda>token. term = token \<or> py_in term token \<or> py_in token term) tokens"

definition keyword_overlap_count :: "string \<Rightarrow> string list \<Rightarrow> int" where
  "keyword_overlap_count text question_terms =
     (if question_terms = [] then 0
      else let tokens = normalized_tokens text in
        if tokens = [] then 0
        else fold (\<lambda>term overlap. if term_hits term tokens then overlap + 1 else overlap)
               question_terms 0)"

definition term_weight :: "string \<Rightarrow> real" where
  "term_weight term = 1.0 + min 0.6 (max 0.0 ((real_of_int (int (length term) - 4)) * 0.08))"

definition keyword_overlap_weighted_score :: "string \<Rightarrow> string list \<Rightarrow> real" where
  "keyword_overlap_weighted_score text terms =
     (if terms = [] then 0.0
      else let tokens = normalized_tokens text in
        if tokens = [] then 0.0
        else fold (\<lambda>term score.
                     if term = [] then score
                     else if term_hits term tokens then score + term_weight term
                     else score)
               terms 0.0)"

section \<open>Question answering: evidence items and global filtering\<close>

record BBox =
  bbox_x1 :: real
  bbox_y1 :: real
  bbox_x2 :: real
  bbox_y2 :: real

record EvidenceItem =
  ev_page :: int
  ev_text :: string
  ev_bbox :: BBox
  ev_page_width :: "real option"
  ev_page_height :: "real option"

record ScoredEvidenceItem =
  sc_item :: EvidenceItem
  sc_score :: real

record AskQuestionResponse =
  resp_answer :: string
  resp_evidence :: "EvidenceItem list"

text \<open>The sort key of \<^verbatim>\<open>_filter_scored_evidence\<close>; \<^verbatim>\<open>sorted\<close> is stable, as \<open>sort_key\<close> is.\<close>

definition filter_sort_key :: "ScoredEvidenceItem \<Rightarrow> real \<times> int \<times> real \<times> real" where
  "filter_sort_key entry =
     (- sc_score entry, ev_page (sc_item entry), bbox_y1 (ev_bbox (sc_item entry)),
      bbox_x1 (ev_bbox (sc_item entry)))"

text \<open>
  The \<^verbatim>\<open>for entry in ordered[1:]\<close> loop: the entries it appends to \<open>selected\<close>, given the
  score kept last.
\<close>

fun walk_scored :: "real \<Rightarrow> real \<Rightarrow> real \<Rightarrow> ScoredEvidenceItem list \<Rightarrow> ScoredEvidenceItem list" where
  "walk_scored score_floor drop_ratio_stop previous_score [] = []"
| "walk_scored score_floor drop_ratio_stop previous_score (entry # rest) =
     (let score = sc_score entry in
      if score < score_floor then []
      else if previous_score > 0 \<and> score / previous_score < drop_ratio_stop then []
      else entry # walk_scored score_floor drop_ratio_stop score rest)"

definition filter_scored_evidence :: "ScoredEvidenceItem list \<Rightarrow> Settings \<Rightarrow> ScoredEvidenceItem list" where
  "filter_scored_evidence scored_items settings =
     (if scored_items = [] then []
      else
        let ordered = sort_key filter_sort_key scored_items;
            best_score = sc_score (hd ordered)
        in if best_score \<le> 0 then take 1 ordered
           else
             let relative_threshold = min 1.0 (max 0.0 (evidence_relative_score_threshold settings));
                 drop_ratio_stop = min 1.0 (max 0.0 (evidence_drop_ratio_stop settings));
                 absolute_threshold = max 0.0 (evidence_min_absolute_score settings);
                 score_floor = max absolute_threshold (best_score * relative_threshold);
                 selected = hd ordered # walk_scored score_floor drop_ratio_stop best_score (tl ordered)
             in if answer_max_evidence_items settings > 0
                then take (nat (answer_max_evidence_items settings)) selected
                else selected)"

text \<open>The display order at the end of \<^verbatim>\<open>_build_evidence\<close>.\<close>

definition display_sort_key :: "ScoredEvidenceItem \<Rightarrow> int \<times> real \<times> real \<times> real" where
  "display_sort_key entry =
     (ev_page (sc_item entry), bbox_y1 (ev_bbox (sc_item entry)),
      bbox_x1 (ev_bbox (sc_item entry)), - sc_score entry)"

definition filter_and_order :: "ScoredEvidenceItem list \<Rightarrow> Settings \<Rightarrow> EvidenceItem list" where
  "filter_and_order scored settings =
     (if scored = [] then []
      else map sc_item (sort_key display_sort_key (filter_scored_evidence scored settings)))"

text \<open>
  Global filtering as the specification words it: the floor is taken from the settings as
  they are, and the walk stops at the first score below the floor or whose ratio to the
  score kept before it is below the drop ratio.
\<close>

fun spec_walk :: "real \<Rightarrow> real \<Rightarrow> real \<Rightarrow> ScoredEvidenceItem list \<Rightarrow> ScoredEvidenceItem list" where
  "spec_walk score_floor drop_stop prev [] = []"
| "spec_walk score_floor drop_stop prev (entry # rest) =
     (if sc_score entry < score_floor \<or> sc_score entry / prev < drop_stop then []
      else entry # spec_walk score_floor drop_stop (sc_score entry) rest)"

definition spec_filter :: "ScoredEvidenceItem list \<Rightarrow> Settings \<Rightarrow> ScoredEvidenceItem list" where
  "spec_filter items settings =
     (let ordered = sort_key filter_sort_key items;
          best = sc_score (hd ordered);
          score_floor = max (evidence_min_absolute_score settings)
                            (best * evidence_relative_score_threshold settings);
          kept = hd ordered # spec_walk score_floor (evidence_drop_ratio_stop settings) best (tl ordered)
      in if answer_max_evidence_items settings > 0
         then take (nat (answer_max_evidence_items settings)) kept
         else kept)"

text \<open>A small sample for the filter: three one-line boxes with scores 1.0, 0.9 and 0.5.\<close>

definition sample_item :: "int \<Rightarrow> real \<Rightarrow> ScoredEvidenceItem" where
  "sample_item page score =
     \<lparr> sc_item = \<lparr> ev_page = page, ev_text = ''line'',
                    ev_bbox = \<lparr> bbox_x1 = 10, bbox_y1 = 20, bbox_x2 = 110, bbox_y2 = 32 \<rparr>,
                    ev_page_width = None, ev_page_height = None \<rparr>,
       sc_score = score \<rparr>"

definition sample_scored :: "ScoredEvidenceItem list" where
  "sample_scored = [sample_item 1 0.9, sample_item 3 0.5, sample_item 2 1.0]"

section \<open>Stored rows\<close>

record Page =
  page_id :: int
  page_document_id :: uuid
  page_number :: int
  page_width_pts :: "real option"
  page_height_pts :: "real option"
  page_image_path :: "string option"

record Chunk =
  chunk_id :: uuid
  chunk_document_id :: uuid
  chunk_index :: int
  chunk_text :: string
  chunk_page_start :: "int option"
  chunk_page_end :: "int option"
  chunk_span_start_id :: "int option"
  chunk_span_end_id :: "int option"
  chunk_embedding :: "real list option"

record Document =
  doc_id :: uuid
  doc_status :: string
  doc_total_pages :: "int option"
  doc_page_width :: "real option"
  doc_page_height :: "real option"
  doc_error_message :: "string option"

record Database =
  db_documents :: "Document list"
  db_pages :: "Page list"
  db_spans :: "Span list"
  db_chunks :: "Chunk list"

record RetrievedChunk =
  rc_id :: uuid
  rc_chunk_index :: int
  rc_text :: string
  rc_page_start :: "int option"
  rc_page_end :: "int option"
  rc_span_start_id :: "int option"
  rc_span_end_id :: "int option"
  rc_distance :: "real option"

text \<open>\<^verbatim>\<open>db.get(Document, document_id)\<close>.\<close>

definition get_document :: "Database \<Rightarrow> uuid \<Rightarrow> Document option" where
  "get_document db document_id = find (\<lambda>d. doc_id d = document_id) (db_documents db)"

text \<open>The join of spans with their pages that the span queries of \<^verbatim>\<open>qa.py\<close> read.\<close>

definition span_page_rows :: "Database \<Rightarrow> (Span \<times> Page) list" where
  "span_page_rows db =
     concat (map (\<lambda>s. map (\<lambda>p. (s, p)) (filter (\<lambda>p. span_page_id s = page_id p) (db_pages db)))
                 (db_spans db))"

section \<open>Question answering: the evidence ranker\<close>

definition CONTEXT_WINDOW_RADIUS :: nat where
  "CONTEXT_WINDOW_RADIUS = 1"

definition SIGNATURE_SIGNAL_THRESHOLD :: real where
  "SIGNATURE_SIGNAL_THRESHOLD = 0.9"

record EvidenceLineCandidate =
  cand_text :: string
  cand_spans :: "Span list"
  cand_y1 :: real
  cand_y2 :: real
  cand_weighted_score :: real
  cand_answer_overlap :: int
  cand_question_overlap :: int
  cand_signature_signal :: real

definition question_targets_signer_evidence :: "string \<Rightarrow> bool" where
  "question_targets_signer_evidence question =
     (let lowered = py_lower question
      in py_in ''signed'' lowered \<or> py_in ''signature'' lowered \<or> py_in ''who signed'' lowered)"

text \<open>
  \<^verbatim>\<open>_signature_line_signal\<close>. The similarity \<^verbatim>\<open>SequenceMatcher(None, a, b).ratio()\<close> of the
  standard library is the parameter \<open>sim\<close>. The loop over the tokens carries the score.
\<close>

fun signature_token_loop :: "(string \<Rightarrow> string \<Rightarrow> real) \<Rightarrow> string list \<Rightarrow> real \<Rightarrow> real" where
  "signature_token_loop sim [] score = score"
| "signature_token_loop sim (token # rest) score =
     (if startswith token ''sig'' then signature_token_loop sim rest (max score 1.6)
      else
        let score1 = (if startswith token ''s'' \<and> sim token ''signed'' \<ge> 0.60
                      then max score 1.35 else score);
            score2 = (if sim token ''electronic'' \<ge> 0.68 then max score1 1.15 else score1)
        in signature_token_loop sim rest score2)"

definition signature_line_signal :: "(string \<Rightarrow> string \<Rightarrow> real) \<Rightarrow> string \<Rightarrow> real" where
  "signature_line_signal sim text =
     (let lowered = '' '' @ py_lower text @ '' '';
          tokens = filter (\<lambda>token. length token \<ge> 4)
                     (map normalize_token (findall_alnum [] (py_lower text)));
          score0 = (if py_in '' signed by '' lowered \<or> py_in '' signature '' lowered
                    then max 0.0 2.0 else 0.0);
          score = signature_token_loop sim tokens score0
      in if score > 0 \<and> py_in '' by '' lowered then score + 0.25 else score)"

definition noisy_markers :: "(string \<times> real) list" where
  "noisy_markers = [(''order source'', 1.00), (''order receive'', 1.00),
     (''order continued'', 0.95), (''order acknowledged'', 0.95), (''order enter'', 0.90),
     (''order from set'', 0.85), (''in pom'', 0.85), (''order's status changed'', 0.75)]"

definition operational_line_penalty :: "string \<Rightarrow> real" where
  "operational_line_penalty text =
     (let lowered = py_lower text;
          penalty0 = (if py_in ''ordering doctor'' lowered then 1.35 else 0.0)
      in fold (\<lambda>(marker, marker_penalty) penalty.
                 if py_in marker lowered then penalty + marker_penalty else penalty)
              noisy_markers penalty0)"

definition normalize_evidence_weights :: "real \<Rightarrow> real \<Rightarrow> real \<times> real" where
  "normalize_evidence_weights question_weight answer_weight =
     (let q = max 0.0 question_weight; a = max 0.0 answer_weight; total = q + a
      in if total \<le> 0 then (0.2, 0.8) else (q / total, a / total))"

text \<open>\<^verbatim>\<open>_line_merge_tolerance\<close>; both reads of \<open>heights\<close> are in range for a non-empty list.\<close>

definition line_merge_tolerance :: "Span list \<Rightarrow> real" where
  "line_merge_tolerance spans =
     (if spans = [] then 3.0
      else
        let heights = sort (map (\<lambda>sp. max 0.5 (span_y2 sp - span_y1 sp)) spans);
            mid = length heights div 2;
            median_height = (if length heights mod 2 = 0
                             then (heights ! (mid - 1) + heights ! mid) / 2
                             else heights ! mid)
        in min 10.0 (max 2.5 (median_height * 0.65)))"

definition mid_y :: "Span \<Rightarrow> real" where
  "mid_y sp = (span_y1 sp + span_y2 sp) / 2"

text \<open>
  The sweep of \<^verbatim>\<open>_group_spans_into_lines\<close>: \<open>groups\<close> holds, for each line, its centre and
  its spans; the current line is the last one.
\<close>

fun group_sweep :: "real \<Rightarrow> (real \<times> Span list) list \<Rightarrow> Span list \<Rightarrow> (real \<times> Span list) list" where
  "group_sweep tolerance groups [] = groups"
| "group_sweep tolerance groups (sp # rest) =
     (let center_y = mid_y sp in
      if groups = [] then group_sweep tolerance [(center_y, [sp])] rest
      else
        let current_center = fst (last groups);
            current_spans = snd (last groups)
        in if \<bar>center_y - current_center\<bar> \<le> tolerance
           then
             let new_spans = current_spans @ [sp];
                 new_center = sum_list (map mid_y new_spans) / real (length new_spans)
             in group_sweep tolerance (butlast groups @ [(new_center, new_spans)]) rest
           else group_sweep tolerance (groups @ [(center_y, [sp])]) rest)"

definition group_spans_into_lines :: "Span list \<Rightarrow> Span list list" where
  "group_spans_into_lines spans =
     (if spans = [] then []
      else
        let ordered = sort_key (\<lambda>sp. (mid_y sp, span_x1 sp)) spans;
            tolerance = line_merge_tolerance ordered
        in map snd (group_sweep tolerance [] ordered))"

text \<open>
  \<^verbatim>\<open>min(...)\<close> and \<^verbatim>\<open>max(...)\<close> over the spans of a line. They are taken after the check
  that the excerpt is not empty, so the line has a span.
\<close>

definition min_of :: "real list \<Rightarrow> real" where
  "min_of xs = fold min (tl xs) (hd xs)"

definition max_of :: "real list \<Rightarrow> real" where
  "max_of xs = fold max (tl xs) (hd xs)"

text \<open>The body of the loop over the lines of a page: the candidate of a line, if any.\<close>

definition line_candidate ::
  "(string \<Rightarrow> string \<Rightarrow> real) \<Rightarrow> string list \<Rightarrow> string list \<Rightarrow> real \<Rightarrow> real \<Rightarrow> bool
     \<Rightarrow> Span list \<Rightarrow> EvidenceLineCandidate option" where
  "line_candidate sim question_terms answer_terms question_weight answer_weight
       prefer_signature_lines line_spans =
     (let ordered_line = sort_key span_x1 line_spans;
          excerpt = py_strip (join_space (map span_text ordered_line))
      in if excerpt = [] then None
         else
           let x1 = min_of (map span_x1 ordered_line);
               y1 = min_of (map span_y1 ordered_line);
               x2 = max_of (map span_x2 ordered_line);
               y2 = max_of (map span_y2 ordered_line)
           in if x2 \<le> x1 \<or> y2 \<le> y1 then None
              else
                let question_overlap = keyword_overlap_count excerpt question_terms;
                    answer_overlap = keyword_overlap_count excerpt answer_terms;
                    question_score = keyword_overlap_weighted_score excerpt question_terms;
                    answer_score = keyword_overlap_weighted_score excerpt answer_terms;
                    weighted_score0 = (question_score * question_weight)
                                        + (answer_score * answer_weight);
                    signature_signal = (if prefer_signature_lines
                                        then signature_line_signal sim excerpt else 0.0);
                    weighted_score = (if prefer_signature_lines
                                      then weighted_score0 + ((signature_signal * 1.35)
                                             - operational_line_penalty excerpt)
                                      else weighted_score0)
                in Some \<lparr> cand_text = excerpt, cand_spans = ordered_line, cand_y1 = y1,
                          cand_y2 = y2, cand_weighted_score = weighted_score,
                          cand_answer_overlap = answer_overlap,
                          cand_question_overlap = question_overlap,
                          cand_signature_signal = signature_signal \<rparr>)"

text \<open>\<^verbatim>\<open>_rank_line_candidates_with_context\<close>: the entry of one index, then the stable sort.\<close>

definition ranked_entry ::
  "EvidenceLineCandidate list \<Rightarrow> string list \<Rightarrow> string list \<Rightarrow> real \<Rightarrow> real \<Rightarrow> nat
     \<Rightarrow> real \<times> nat \<times> EvidenceLineCandidate" where
  "ranked_entry candidates question_terms answer_terms question_weight answer_weight idx =
     (let candidate = candidates ! idx;
          start = idx - CONTEXT_WINDOW_RADIUS;
          en = min (length candidates) (idx + CONTEXT_WINDOW_RADIUS + 1);
          context_text = join_space (map (\<lambda>j. cand_text (candidates ! j)) [start..<en]);
          context_question = keyword_overlap_weighted_score context_text question_terms;
          context_answer = keyword_overlap_weighted_score context_text answer_terms;
          context_score = (context_question * question_weight) + (context_answer * answer_weight);
          neighbor_overlap =
            fold (\<lambda>j acc. if j = idx then acc
                           else acc + min 2.0 (real_of_int (cand_answer_overlap (candidates ! j)
                                                             + cand_question_overlap (candidates ! j))))
                 [start..<en] 0.0;
          final_score = (cand_weighted_score candidate * 0.72) + (context_score * 0.28)
                          + (neighbor_overlap * 0.08) + (cand_signature_signal candidate * 0.12)
      in (final_score, idx, candidate))"

definition rank_sort_key ::
  "real \<times> nat \<times> EvidenceLineCandidate \<Rightarrow> real \<times> real \<times> real \<times> int \<times> real" where
  "rank_sort_key entry =
     (case entry of (final_score, idx, candidate) \<Rightarrow>
        (- final_score, - cand_signature_signal candidate, - cand_weighted_score candidate,
         - (cand_answer_overlap candidate + cand_question_overlap candidate), cand_y1 candidate))"

definition rank_line_candidates_with_context ::
  "EvidenceLineCandidate list \<Rightarrow> string list \<Rightarrow> string list \<Rightarrow> real \<Rightarrow> real
     \<Rightarrow> (real \<times> nat \<times> EvidenceLineCandidate) list" where
  "rank_line_candidates_with_context candidates question_terms answer_terms
       question_weight answer_weight =
     (if candidates = [] then []
      else sort_key rank_sort_key
             (map (ranked_entry candidates question_terms answer_terms question_weight answer_weight)
                  [0..<length candidates]))"

definition build_line_evidence_item ::
  "int \<Rightarrow> real option \<Rightarrow> real option \<Rightarrow> EvidenceLineCandidate \<Rightarrow> EvidenceItem option" where
  "build_line_evidence_item page_no page_width page_height candidate =
     (if cand_spans candidate = [] then None
      else
        let x1 = min_of (map span_x1 (cand_spans candidate));
            y1 = min_of (map span_y1 (cand_spans candidate));
            x2 = max_of (map span_x2 (cand_spans candidate));
            y2 = max_of (map span_y2 (cand_spans candidate))
        in if x2 \<le> x1 \<or> y2 \<le> y1 then None
           else
             let text = py_strip (cand_text candidate)
             in if text = [] then None
                else Some \<lparr> ev_page = page_no, ev_text = text,
                            ev_bbox = \<lparr> bbox_x1 = x1, bbox_y1 = y1, bbox_x2 = x2, bbox_y2 = y2 \<rparr>,
                            ev_page_width = page_width, ev_page_height = page_height \<rparr>)"

text \<open>
  \<^verbatim>\<open>_expand_line_indices_from_seeds\<close>. Indices are natural numbers here, so the guard
  \<^verbatim>\<open>0 <= seed - 1\<close> is \<open>0 < seed\<close>. \<open>add_idx\<close> and \<open>is_relevant\<close> are the two local
  functions; the three loops follow, each with its \<^verbatim>\<open>break\<close>.
\<close>

definition add_idx :: "nat \<Rightarrow> nat \<Rightarrow> nat \<Rightarrow> nat list \<Rightarrow> nat list" where
  "add_idx n max_lines idx selected_order =
     (if idx < n \<and> idx \<notin> set selected_order \<and> length selected_order < max_lines
      then selected_order @ [idx] else selected_order)"

definition is_relevant :: "EvidenceLineCandidate list \<Rightarrow> nat \<Rightarrow> bool" where
  "is_relevant candidates idx =
     (let candidate = candidates ! idx;
          overlap = cand_answer_overlap candidate + cand_question_overlap candidate
      in if overlap > 0 then True
         else if cand_weighted_score candidate \<ge> 0.75 then True
         else if cand_signature_signal candidate \<ge> SIGNATURE_SIGNAL_THRESHOLD then True
         else False)"

fun seed_loop :: "EvidenceLineCandidate list \<Rightarrow> nat \<Rightarrow> nat list \<Rightarrow> nat list \<Rightarrow> nat list" where
  "seed_loop candidates max_lines [] selected_order = selected_order"
| "seed_loop candidates max_lines (seed # rest) selected_order =
     (let n = length candidates;
          s1 = add_idx n max_lines seed selected_order;
          s2 = (if 0 < seed \<and> seed - 1 < n \<and> is_relevant candidates (seed - 1)
                then add_idx n max_lines (seed - 1) s1 else s1);
          s3 = (if seed + 1 < n \<and> is_relevant candidates (seed + 1)
                then add_idx n max_lines (seed + 1) s2 else s2)
      in if length s3 \<ge> max_lines then s3 else seed_loop candidates max_lines rest s3)"

fun relevant_fill ::
  "EvidenceLineCandidate list \<Rightarrow> nat \<Rightarrow> (real \<times> nat \<times> EvidenceLineCandidate) list
     \<Rightarrow> nat list \<Rightarrow> nat list" where
  "relevant_fill candidates max_lines [] selected_order = selected_order"
| "relevant_fill candidates max_lines (entry # rest) selected_order =
     (let idx = fst (snd entry);
          s1 = (if is_relevant candidates idx
                then add_idx (length candidates) max_lines idx selected_order
                else selected_order)
      in if length s1 \<ge> max_lines then s1 else relevant_fill candidates max_lines rest s1)"

fun plain_fill ::
  "EvidenceLineCandidate list \<Rightarrow> nat \<Rightarrow> (real \<times> nat \<times> EvidenceLineCandidate) list
     \<Rightarrow> nat list \<Rightarrow> nat list" where
  "plain_fill candidates max_lines [] selected_order = selected_order"
| "plain_fill candidates max_lines (entry # rest) selected_order =
     (let s1 = add_idx (length candidates) max_lines (fst (snd entry)) selected_order
      in if length s1 \<ge> max_lines then s1 else plain_fill candidates max_lines rest s1)"

definition expand_line_indices_from_seeds ::
  "(real \<times> nat \<times> EvidenceLineCandidate) list \<Rightarrow> EvidenceLineCandidate list \<Rightarrow> nat list
     \<Rightarrow> nat \<Rightarrow> nat list" where
  "expand_line_indices_from_seeds ranked_lines candidates seed_indices max_lines =
     (if candidates = [] \<or> max_lines \<le> 0 then []
      else
        let s1 = seed_loop candidates max_lines seed_indices [];
            s2 = (if length s1 < max_lines
                  then relevant_fill candidates max_lines ranked_lines s1 else s1);
            s3 = (if s2 = [] \<and> ranked_lines \<noteq> []
                  then add_idx (length candidates) max_lines (fst (snd (hd ranked_lines))) s2
                  else s2);
            s4 = (if length s3 < max_lines
                  then plain_fill candidates max_lines ranked_lines s3 else s3)
        in sort_key (\<lambda>idx. cand_y1 (candidates ! idx)) s4)"

text \<open>
  The selection of line indices on one page, the \<^verbatim>\<open>if prefer_signature_lines\<close> statement
  of \<^verbatim>\<open>_chunk_evidence_items\<close>. \<open>None\<close> is the \<^verbatim>\<open>continue\<close> of signature mode. The set of
  indices is read in increasing order before the stable sort by \<open>y1\<close>.
\<close>

definition select_line_indices ::
  "bool \<Rightarrow> string list \<Rightarrow> string list \<Rightarrow> int \<Rightarrow> EvidenceLineCandidate list
     \<Rightarrow> (real \<times> nat \<times> EvidenceLineCandidate) list \<Rightarrow> nat list option" where
  "select_line_indices prefer_signature_lines question_terms answer_terms min_keyword_overlap
       line_candidates ranked_lines =
     (if prefer_signature_lines then
        (let signature_selected =
               filter (\<lambda>entry. cand_signature_signal (snd (snd entry)) \<ge> SIGNATURE_SIGNAL_THRESHOLD)
                 ranked_lines
         in if signature_selected = [] then None
            else Some (sort_key (\<lambda>idx. cand_y1 (line_candidates ! idx))
                         (sort (remdups (map (\<lambda>entry. fst (snd entry)) signature_selected)))))
      else
        (let selected =
               (if question_terms \<noteq> [] \<or> answer_terms \<noteq> [] then
                  (let sel = filter (\<lambda>entry. cand_answer_overlap (snd (snd entry))
                                              + cand_question_overlap (snd (snd entry))
                                                \<ge> min_keyword_overlap) ranked_lines
                   in if sel = [] then take 1 ranked_lines else sel)
                else take 1 ranked_lines);
             seed_indices = map (\<lambda>entry. fst (snd entry)) (take 2 selected)
         in Some (expand_line_indices_from_seeds ranked_lines line_candidates seed_indices
                    (length line_candidates))))"

fun first_some :: "'a option list \<Rightarrow> 'a option" where
  "first_some [] = None"
| "first_some (None # rest) = first_some rest"
| "first_some (Some v # rest) = Some v"

text \<open>The line candidates of a page, from the spans grouped under its page number.\<close>

definition page_line_candidates ::
  "(string \<Rightarrow> string \<Rightarrow> real) \<Rightarrow> string list \<Rightarrow> string list \<Rightarrow> real \<Rightarrow> real \<Rightarrow> bool
     \<Rightarrow> Span list \<Rightarrow> EvidenceLineCandidate list" where
  "page_line_candidates sim question_terms answer_terms question_weight answer_weight
       prefer_signature_lines spans =
     List.map_filter
       (line_candidate sim question_terms answer_terms question_weight answer_weight
          prefer_signature_lines)
       (group_spans_into_lines spans)"

text \<open>The evidence items that one selected index yields.\<close>

definition index_item ::
  "int \<Rightarrow> real option \<Rightarrow> real option \<Rightarrow> EvidenceLineCandidate list
     \<Rightarrow> (real \<times> nat \<times> EvidenceLineCandidate) list \<Rightarrow> nat \<Rightarrow> ScoredEvidenceItem list" where
  "index_item page_no page_width page_height line_candidates ranked_lines idx =
     (let candidate = line_candidates ! idx
      in case build_line_evidence_item page_no page_width page_height candidate of
           None \<Rightarrow> []
         | Some item \<Rightarrow>
             [\<lparr> sc_item = item,
                sc_score = (case map_of (map (\<lambda>entry. (fst (snd entry), fst entry)) ranked_lines) idx of
                              Some score \<Rightarrow> score
                            | None \<Rightarrow> cand_weighted_score candidate) \<rparr>])"

text \<open>The body of \<^verbatim>\<open>for page_number in sorted(grouped)\<close>: the items of one page.\<close>

definition page_evidence_items ::
  "(string \<Rightarrow> string \<Rightarrow> real) \<Rightarrow> string list \<Rightarrow> string list \<Rightarrow> int \<Rightarrow> real \<Rightarrow> real \<Rightarrow> bool
     \<Rightarrow> int \<Rightarrow> real option \<Rightarrow> real option \<Rightarrow> Span list \<Rightarrow> ScoredEvidenceItem list" where
  "page_evidence_items sim question_terms answer_terms min_keyword_overlap question_weight
       answer_weight prefer_signature_lines page_no page_width page_height spans =
     (if spans = [] then []
      else
        let line_candidates = page_line_candidates sim question_terms answer_terms
                                question_weight answer_weight prefer_signature_lines spans
        in if line_candidates = [] then []
           else
             let ranked_lines = rank_line_candidates_with_context line_candidates
                                  question_terms answer_terms question_weight answer_weight
             in case select_line_indices prefer_signature_lines question_terms answer_terms
                       min_keyword_overlap line_candidates ranked_lines of
                  None \<Rightarrow> []
                | Some selected_indices \<Rightarrow>
                    concat (map (index_item page_no page_width page_height line_candidates
                                   ranked_lines) selected_indices))"

text \<open>
  The rows \<^verbatim>\<open>_chunk_evidence_items\<close> reads: the spans of the document with an id in the
  range, with their pages, ordered by page number and span index.
\<close>

definition fetch_span_rows :: "Database \<Rightarrow> uuid \<Rightarrow> int \<Rightarrow> int \<Rightarrow> (Span \<times> Page) list" where
  "fetch_span_rows db document_id low_id high_id =
     sort_key (\<lambda>row. (page_number (snd row), span_index (fst row)))
       (filter (\<lambda>row. span_document_id (fst row) = document_id
                        \<and> span_id (fst row) \<ge> low_id \<and> span_id (fst row) \<le> high_id)
          (span_page_rows db))"

definition chunk_evidence_items ::
  "(string \<Rightarrow> string \<Rightarrow> real) \<Rightarrow> Database \<Rightarrow> string list \<Rightarrow> string list \<Rightarrow> int \<Rightarrow> real \<Rightarrow> real
     \<Rightarrow> bool \<Rightarrow> uuid \<Rightarrow> RetrievedChunk \<Rightarrow> ScoredEvidenceItem list" where
  "chunk_evidence_items sim db question_terms answer_terms min_keyword_overlap question_weight
       answer_weight prefer_signature_lines document_id chunk =
     (case (rc_span_start_id chunk, rc_span_end_id chunk) of
        (Some start_id, Some end_id) \<Rightarrow>
          (let low_id = min start_id end_id;
               high_id = max start_id end_id;
               rows = fetch_span_rows db document_id low_id high_id
           in if rows = [] then []
              else
                concat (map (\<lambda>page_no.
                          let group = filter (\<lambda>row. page_number (snd row) = page_no) rows
                          in page_evidence_items sim question_terms answer_terms
                               min_keyword_overlap question_weight answer_weight
                               prefer_signature_lines page_no
                               (first_some (map (\<lambda>row. page_width_pts (snd row)) group))
                               (first_some (map (\<lambda>row. page_height_pts (snd row)) group))
                               (map fst group))
                        (sort (remdups (map (\<lambda>row. page_number (snd row)) rows)))))
      | _ \<Rightarrow> [])"

text \<open>
  The S5 scenario: one page with the line ``Signed by Dr. A. Patel'' above the line
  ``Ordering doctor: B. Smith'', one span per word, and a similarity that is 0 everywhere.
\<close>

definition word_span :: "int \<Rightarrow> string \<Rightarrow> real \<Rightarrow> real \<Rightarrow> real \<Rightarrow> real \<Rightarrow> Span" where
  "word_span i w x1 y1 x2 y2 =
     \<lparr> span_id = i, span_document_id = 1, span_page_id = 1, span_index = i - 1,
       span_text = w, span_x1 = x1, span_y1 = y1, span_x2 = x2, span_y2 = y2,
       span_char_start = None, span_char_end = None \<rparr>"

definition s5_spans :: "Span list" where
  "s5_spans =
     [word_span 1 ''Signed'' 10 100 50 112, word_span 2 ''by'' 54 100 66 112,
      word_span 3 ''Dr.'' 70 100 88 112, word_span 4 ''A.'' 92 100 102 112,
      word_span 5 ''Patel'' 106 100 140 112,
      word_span 6 ''Ordering'' 10 130 60 142, word_span 7 ''doctor:'' 64 130 104 142,
      word_span 8 ''B.'' 108 130 118 142, word_span 9 ''Smith'' 122 130 156 142]"

definition s5_question :: string where
  "s5_question = ''Who signed the order?''"

definition s5_answer :: string where
  "s5_answer = ''Dr. A. Patel''"

definition no_similarity :: "string \<Rightarrow> string \<Rightarrow> real" where
  "no_similarity a b = 0"

section \<open>Question answering: building the evidence list\<close>

text \<open>
  \<^verbatim>\<open>_expand_chunks_for_evidence\<close>. The first loop keeps the cited chunks once each and
  collects the indices of the neighbours that are not cited themselves.
\<close>

fun expand_first_loop ::
  "int list \<Rightarrow> RetrievedChunk list \<Rightarrow> RetrievedChunk list \<Rightarrow> uuid list \<Rightarrow> int list
     \<Rightarrow> RetrievedChunk list \<times> uuid list \<times> int list" where
  "expand_first_loop present_indices [] expanded seen_ids neighbor_indices =
     (expanded, seen_ids, neighbor_indices)"
| "expand_first_loop present_indices (chunk # rest) expanded seen_ids neighbor_indices =
     (let expanded1 = (if rc_id chunk \<notin> set seen_ids then expanded @ [chunk] else expanded);
          seen1 = (if rc_id chunk \<notin> set seen_ids then seen_ids @ [rc_id chunk] else seen_ids);
          n1 = (if rc_chunk_index chunk + 1 \<notin> set present_indices
                then neighbor_indices @ [rc_chunk_index chunk + 1] else neighbor_indices);
          n2 = (if rc_chunk_index chunk > 0 \<and> rc_chunk_index chunk - 1 \<notin> set present_indices
                then n1 @ [rc_chunk_index chunk - 1] else n1)
      in expand_first_loop present_indices rest expanded1 seen1 n2)"

definition retrieved_of_row :: "Chunk \<Rightarrow> RetrievedChunk" where
  "retrieved_of_row row =
     \<lparr> rc_id = chunk_id row, rc_chunk_index = chunk_index row, rc_text = chunk_text row,
       rc_page_start = chunk_page_start row, rc_page_end = chunk_page_end row,
       rc_span_start_id = chunk_span_start_id row, rc_span_end_id = chunk_span_end_id row,
       rc_distance = None \<rparr>"

text \<open>The inner loop over \<open>(chunk_index + 1, chunk_index - 1)\<close>, then the loop over the chunks.\<close>

fun expand_neighbors ::
  "(int \<Rightarrow> Chunk option) \<Rightarrow> int list \<Rightarrow> RetrievedChunk list \<Rightarrow> uuid list
     \<Rightarrow> RetrievedChunk list \<times> uuid list" where
  "expand_neighbors row_by_index [] expanded seen_ids = (expanded, seen_ids)"
| "expand_neighbors row_by_index (neighbor_index # rest) expanded seen_ids =
     (case row_by_index neighbor_index of
        None \<Rightarrow> expand_neighbors row_by_index rest expanded seen_ids
      | Some neighbor_row \<Rightarrow>
          if chunk_id neighbor_row \<in> set seen_ids
          then expand_neighbors row_by_index rest expanded seen_ids
          else expand_neighbors row_by_index rest (expanded @ [retrieved_of_row neighbor_row])
                 (seen_ids @ [chunk_id neighbor_row]))"

fun expand_second_loop ::
  "(int \<Rightarrow> Chunk option) \<Rightarrow> RetrievedChunk list \<Rightarrow> RetrievedChunk list \<Rightarrow> uuid list
     \<Rightarrow> RetrievedChunk list" where
  "expand_second_loop row_by_index [] expanded seen_ids = expanded"
| "expand_second_loop row_by_index (chunk # rest) expanded seen_ids =
     (case expand_neighbors row_by_index [rc_chunk_index chunk + 1, rc_chunk_index chunk - 1]
             expanded seen_ids of
        (expanded1, seen1) \<Rightarrow> expand_second_loop row_by_index rest expanded1 seen1)"

definition expand_chunks_for_evidence ::
  "Database \<Rightarrow> uuid \<Rightarrow> RetrievedChunk list \<Rightarrow> RetrievedChunk list" where
  "expand_chunks_for_evidence db document_id chunks =
     (if chunks = [] then []
      else
        case expand_first_loop (map rc_chunk_index chunks) chunks [] [] [] of
          (expanded, seen_ids, neighbor_indices) \<Rightarrow>
            if neighbor_indices = [] then expanded
            else
              let neighbor_rows =
                    sort_key chunk_index
                      (filter (\<lambda>row. chunk_document_id row = document_id
                                       \<and> chunk_index row \<in> set neighbor_indices) (db_chunks db));
                  row_by_index = map_of (rev (map (\<lambda>row. (chunk_index row, row)) neighbor_rows))
              in expand_second_loop row_by_index chunks expanded seen_ids)"

text \<open>
  The de-duplication dictionary of \<^verbatim>\<open>_build_evidence\<close>, in insertion order. The key
  \<^verbatim>\<open>f"{page}:{x1:.1f}:{y1:.1f}:{x2:.1f}:{y2:.1f}"\<close> is the tuple of its five parts; the
  formatting of a float with one decimal is the parameter \<open>fmt\<close>.
\<close>

type_synonym evidence_key = "int \<times> string \<times> string \<times> string \<times> string"

definition evidence_key_of :: "(real \<Rightarrow> string) \<Rightarrow> EvidenceItem \<Rightarrow> evidence_key" where
  "evidence_key_of fmt item =
     (ev_page item, fmt (bbox_x1 (ev_bbox item)), fmt (bbox_y1 (ev_bbox item)),
      fmt (bbox_x2 (ev_bbox item)), fmt (bbox_y2 (ev_bbox item)))"

fun upsert_scored ::
  "evidence_key \<Rightarrow> ScoredEvidenceItem \<Rightarrow> (evidence_key \<times> ScoredEvidenceItem) list
     \<Rightarrow> (evidence_key \<times> ScoredEvidenceItem) list" where
  "upsert_scored key scored [] = [(key, scored)]"
| "upsert_scored key scored ((k, existing) # rest) =
     (if k = key
      then (if sc_score scored > sc_score existing then (k, scored) else (k, existing)) # rest
      else (k, existing) # upsert_scored key scored rest)"

definition build_evidence ::
  "(string \<Rightarrow> string \<Rightarrow> real) \<Rightarrow> (real \<Rightarrow> string) \<Rightarrow> Database \<Rightarrow> Settings \<Rightarrow> string \<Rightarrow> string
     \<Rightarrow> uuid \<Rightarrow> RetrievedChunk list \<Rightarrow> EvidenceItem list" where
  "build_evidence sim fmt db settings question answer document_id chunks =
     (let prefer_signature_lines = question_targets_signer_evidence question;
          question_terms = tokenize_question_terms question;
          answer_terms = tokenize_question_terms answer;
          weights = normalize_evidence_weights (evidence_question_weight settings)
                      (evidence_answer_weight settings);
          evidence_chunks = expand_chunks_for_evidence db document_id chunks;
          chunk_items = concat (map (chunk_evidence_items sim db question_terms answer_terms
                                       (retrieval_min_keyword_overlap settings)
                                       (fst weights) (snd weights) prefer_signature_lines
                                       document_id) evidence_chunks);
          scored_by_key = fold (\<lambda>scored acc. upsert_scored (evidence_key_of fmt (sc_item scored))
                                                scored acc) chunk_items []
      in filter_and_order (map snd scored_by_key) settings)"

section \<open>Question answering: the answer generator\<close>

datatype json =
    JNull
  | JBool bool
  | JInt int
  | JFloat real
  | JStr string
  | JList "json list"
  | JDict "(string \<times> json) list"

text \<open>Python truthiness of a decoded JSON value, as \<^verbatim>\<open>if not raw_id\<close> reads it.\<close>

fun py_truthy :: "json \<Rightarrow> bool" where
  "py_truthy JNull = False"
| "py_truthy (JBool b) = b"
| "py_truthy (JInt i) = (i \<noteq> 0)"
| "py_truthy (JFloat r) = (r \<noteq> 0)"
| "py_truthy (JStr s) = (s \<noteq> [])"
| "py_truthy (JList xs) = (xs \<noteq> [])"
| "py_truthy (JDict kvs) = (kvs \<noteq> [])"

text \<open>
  \<^verbatim>\<open>str(value)\<close>: a string is itself; the printed form of the other values is the
  parameter \<open>repr\<close>.
\<close>

definition py_str :: "(json \<Rightarrow> string) \<Rightarrow> json \<Rightarrow> string" where
  "py_str repr v = (case v of JStr s \<Rightarrow> s | _ \<Rightarrow> repr v)"

text \<open>
  The loop over \<open>citations\<close> in \<^verbatim>\<open>_generate_answer\<close>. \<^verbatim>\<open>uuid.UUID(s)\<close> is the parameter
  \<open>parse_uuid\<close>, \<open>None\<close> where the library raises \<^verbatim>\<open>ValueError\<close>.
\<close>

fun collect_chunk_ids ::
  "(string \<Rightarrow> uuid option) \<Rightarrow> (json \<Rightarrow> string) \<Rightarrow> json list \<Rightarrow> uuid list \<Rightarrow> uuid list" where
  "collect_chunk_ids parse_uuid repr [] chunk_ids = chunk_ids"
| "collect_chunk_ids parse_uuid repr (citation # rest) chunk_ids =
     (case citation of
        JDict kvs \<Rightarrow>
          (case map_of kvs ''chunk_id'' of
             None \<Rightarrow> collect_chunk_ids parse_uuid repr rest chunk_ids
           | Some raw_id \<Rightarrow>
               if \<not> py_truthy raw_id then collect_chunk_ids parse_uuid repr rest chunk_ids
               else
                 (case parse_uuid (py_str repr raw_id) of
                    None \<Rightarrow> collect_chunk_ids parse_uuid repr rest chunk_ids
                  | Some parsed_id \<Rightarrow>
                      if parsed_id \<notin> set chunk_ids
                      then collect_chunk_ids parse_uuid repr rest (chunk_ids @ [parsed_id])
                      else collect_chunk_ids parse_uuid repr rest chunk_ids))
      | _ \<Rightarrow> collect_chunk_ids parse_uuid repr rest chunk_ids)"

text \<open>
  The part of \<^verbatim>\<open>_generate_answer\<close> after the model has answered: \<open>payload\<close> is the
  dictionary that \<^verbatim>\<open>_parse_json_payload\<close> returns.
\<close>

definition answer_and_citations ::
  "(string \<Rightarrow> uuid option) \<Rightarrow> (json \<Rightarrow> string) \<Rightarrow> (string \<times> json) list \<Rightarrow> string \<times> uuid list" where
  "answer_and_citations parse_uuid repr payload =
     (let answer = py_strip (py_str repr (case map_of payload ''answer'' of
                                            None \<Rightarrow> JStr [] | Some v \<Rightarrow> v));
          citations = (case map_of payload ''citations'' of None \<Rightarrow> JList [] | Some v \<Rightarrow> v);
          chunk_ids = (case citations of
                         JList cs \<Rightarrow> collect_chunk_ids parse_uuid repr cs []
                       | _ \<Rightarrow> [])
      in (answer, chunk_ids))"

text \<open>
  The citations as the specification words them: the \<open>chunk_id\<close> values that parse as
  UUIDs, in order, each kept at its first occurrence.
\<close>

definition citation_uuid :: "(string \<Rightarrow> uuid option) \<Rightarrow> (json \<Rightarrow> string) \<Rightarrow> json \<Rightarrow> uuid option" where
  "citation_uuid parse_uuid repr citation =
     (case citation of
        JDict kvs \<Rightarrow> (case map_of kvs ''chunk_id'' of
                       None \<Rightarrow> None
                     | Some raw_id \<Rightarrow> parse_uuid (py_str repr raw_id))
      | _ \<Rightarrow> None)"

definition first_occurrences :: "'a list \<Rightarrow> 'a list" where
  "first_occurrences xs = rev (remdups (rev xs))"

section \<open>Question answering: the orchestrator\<close>

definition INSUFFICIENT_EVIDENCE_ANSWER :: string where
  "INSUFFICIENT_EVIDENCE_ANSWER =
     ''I don't have enough grounded evidence in this document to answer that confidently.''"

definition EMBEDDING_VECTOR_DIM :: int where
  "EMBEDDING_VECTOR_DIM = 1536"

text \<open>Log records: the format string and its arguments.\<close>

datatype log_arg = LUuid uuid | LStr string

datatype log_entry = LogInfo string "log_arg list" | LogWarning string "log_arg list"

text \<open>
  What \<^verbatim>\<open>ask_question\<close> gets from outside the repository: the embedding provider, the
  vector query (question embedding and SQL), the chat model with the decoding of its JSON
  reply, and four library functions. A failure is \<open>Inl\<close> with the text of the exception.
\<close>

record QAEnv =
  env_embed :: "string list \<Rightarrow> string + real list list"
  env_retrieve :: "Database \<Rightarrow> uuid \<Rightarrow> string \<Rightarrow> string + RetrievedChunk list"
  env_llm :: "string \<Rightarrow> RetrievedChunk list \<Rightarrow> string + (string \<times> json) list"
  env_parse_uuid :: "string \<Rightarrow> uuid option"
  env_repr :: "json \<Rightarrow> string"
  env_similarity :: "string \<Rightarrow> string \<Rightarrow> real"
  env_format_1f :: "real \<Rightarrow> string"

definition insufficient_response :: "string \<Rightarrow> log_entry list \<times> (py_error + AskQuestionResponse)" where
  "insufficient_response reason =
     ([LogInfo ''Returning insufficient evidence response: %s'' [LStr reason]],
      Inr \<lparr> resp_answer = INSUFFICIENT_EVIDENCE_ANSWER, resp_evidence = [] \<rparr>)"

text \<open>
  \<^verbatim>\<open>_ensure_chunk_embeddings\<close>: the batches of 64, each a call of the provider;
  \<^verbatim>\<open>zip(..., strict=True)\<close> raises when the provider returns another number of vectors.
  The result is the database after the commit.
\<close>

function embed_batches ::
  "(string list \<Rightarrow> string + real list list) \<Rightarrow> Chunk list \<Rightarrow> string + (uuid \<times> real list) list" where
  "embed_batches provider missing_chunks =
     (if missing_chunks = [] then Inr []
      else
        let batch = take 64 missing_chunks in
        case provider (map chunk_text batch) of
          Inl exc \<Rightarrow> Inl exc
        | Inr vectors \<Rightarrow>
            if length vectors \<noteq> length batch
            then Inl ''zip() arguments have different lengths''
            else (case embed_batches provider (drop 64 missing_chunks) of
                    Inl exc \<Rightarrow> Inl exc
                  | Inr assigned \<Rightarrow> Inr (zip (map chunk_id batch) vectors @ assigned)))"
  by pat_completeness auto
termination
  by (relation "measure (\<lambda>(provider, missing_chunks). length missing_chunks)") auto

declare embed_batches.simps [simp del]

definition missing_chunks_of :: "Database \<Rightarrow> uuid \<Rightarrow> Chunk list" where
  "missing_chunks_of db document_id =
     sort_key chunk_index
       (filter (\<lambda>c. chunk_document_id c = document_id \<and> chunk_embedding c = None) (db_chunks db))"

definition ensure_chunk_embeddings ::
  "(string list \<Rightarrow> string + real list list) \<Rightarrow> Database \<Rightarrow> uuid \<Rightarrow> string + Database" where
  "ensure_chunk_embeddings provider db document_id =
     (let missing_chunks = missing_chunks_of db document_id in
      if missing_chunks = [] then Inr db
      else
        case embed_batches provider missing_chunks of
          Inl exc \<Rightarrow> Inl exc
        | Inr assigned \<Rightarrow>
            Inr (db \<lparr> db_chunks :=
                   map (\<lambda>c. case map_of (rev assigned) (chunk_id c) of
                               Some v \<Rightarrow> c \<lparr> chunk_embedding := Some v \<rparr>
                             | None \<Rightarrow> c) (db_chunks db) \<rparr>))"

definition has_sufficient_retrieval_confidence :: "Settings \<Rightarrow> RetrievedChunk list \<Rightarrow> bool" where
  "has_sufficient_retrieval_confidence settings chunks =
     (if chunks = [] then False
      else
        let vector_distances = List.map_filter rc_distance chunks in
        if vector_distances \<noteq> []
        then min_of vector_distances \<le> retrieval_max_vector_distance settings
        else False)"

definition uncertainty_markers :: "string list" where
  "uncertainty_markers = [''not enough evidence'', ''cannot determine'', ''can't determine'',
     ''insufficient'', ''uncertain'', ''not clearly supported'']"

definition answer_is_uncertain :: "string \<Rightarrow> bool" where
  "answer_is_uncertain answer =
     (let lowered = py_lower answer in list_ex (\<lambda>marker. py_in marker lowered) uncertainty_markers)"

text \<open>
  \<^verbatim>\<open>_validate_evidence_mapping\<close>: the query looks for a span of the document, on the page
  with the item's number, that overlaps the box.
\<close>

definition span_overlaps :: "uuid \<Rightarrow> EvidenceItem \<Rightarrow> Span \<times> Page \<Rightarrow> bool" where
  "span_overlaps document_id item row =
     (span_document_id (fst row) = document_id
      \<and> page_number (snd row) = ev_page item
      \<and> span_x2 (fst row) > bbox_x1 (ev_bbox item)
      \<and> span_x1 (fst row) < bbox_x2 (ev_bbox item)
      \<and> span_y2 (fst row) > bbox_y1 (ev_bbox item)
      \<and> span_y1 (fst row) < bbox_y2 (ev_bbox item))"

fun validate_evidence_mapping :: "Database \<Rightarrow> uuid \<Rightarrow> EvidenceItem list \<Rightarrow> bool" where
  "validate_evidence_mapping db document_id [] = True"
| "validate_evidence_mapping db document_id (item # rest) =
     (if bbox_x2 (ev_bbox item) \<le> bbox_x1 (ev_bbox item)
         \<or> bbox_y2 (ev_bbox item) \<le> bbox_y1 (ev_bbox item) then False
      else if find (span_overlaps document_id item) (span_page_rows db) = None then False
      else validate_evidence_mapping db document_id rest)"

text \<open>\<^verbatim>\<open>xs[:n]\<close> for an integer \<open>n\<close>: a negative \<open>n\<close> counts from the end.\<close>

definition py_slice_to :: "'a list \<Rightarrow> int \<Rightarrow> 'a list" where
  "py_slice_to xs n = (if n \<ge> 0 then take (nat n) xs else take (nat (int (length xs) + n)) xs)"

text \<open>The loop that resolves the citations to chunks of the context.\<close>

fun select_chunks ::
  "(uuid \<Rightarrow> RetrievedChunk option) \<Rightarrow> uuid list \<Rightarrow> RetrievedChunk list \<Rightarrow> RetrievedChunk list" where
  "select_chunks cited_lookup [] selected_chunks = selected_chunks"
| "select_chunks cited_lookup (cid # rest) selected_chunks =
     (case cited_lookup cid of
        None \<Rightarrow> select_chunks cited_lookup rest selected_chunks
      | Some chunk \<Rightarrow>
          if chunk \<notin> set selected_chunks
          then select_chunks cited_lookup rest (selected_chunks @ [chunk])
          else select_chunks cited_lookup rest selected_chunks)"

text \<open>
  \<^verbatim>\<open>ask_question\<close>, cut at its stages from the last to the first. The result is the log
  written and either the exception raised or the response returned.
\<close>

definition evidence_stage ::
  "QAEnv \<Rightarrow> Database \<Rightarrow> Settings \<Rightarrow> uuid \<Rightarrow> string \<Rightarrow> string \<Rightarrow> RetrievedChunk list
     \<Rightarrow> log_entry list \<times> (py_error + AskQuestionResponse)" where
  "evidence_stage env db settings document_id clean_question answer selected_chunks =
     (let evidence = build_evidence (env_similarity env) (env_format_1f env) db settings
                       clean_question answer document_id selected_chunks
      in if int (length evidence) < minimum_evidence_items settings
         then insufficient_response ''Evidence count is below minimum threshold.''
         else if \<not> validate_evidence_mapping db document_id evidence
         then insufficient_response ''Evidence mapping validation failed.''
         else ([], Inr \<lparr> resp_answer = answer, resp_evidence = evidence \<rparr>))"

definition cited_lookup_of :: "RetrievedChunk list \<Rightarrow> uuid \<Rightarrow> RetrievedChunk option" where
  "cited_lookup_of context_chunks = map_of (rev (map (\<lambda>chunk. (rc_id chunk, chunk)) context_chunks))"

text \<open>The citations that are chunks of the context, in the order the model gave them.\<close>

definition valid_citations_of :: "RetrievedChunk list \<Rightarrow> uuid list \<Rightarrow> uuid list" where
  "valid_citations_of context_chunks cited_chunk_ids =
     filter (\<lambda>cid. cited_lookup_of context_chunks cid \<noteq> None) cited_chunk_ids"

definition citation_stage ::
  "QAEnv \<Rightarrow> Database \<Rightarrow> Settings \<Rightarrow> uuid \<Rightarrow> string \<Rightarrow> RetrievedChunk list \<Rightarrow> string
     \<Rightarrow> uuid list \<Rightarrow> log_entry list \<times> (py_error + AskQuestionResponse)" where
  "citation_stage env db settings document_id clean_question context_chunks answer
       cited_chunk_ids =
     (let cited_lookup = cited_lookup_of context_chunks;
          valid_citations = valid_citations_of context_chunks cited_chunk_ids
      in if require_llm_citations settings \<and> valid_citations = []
         then insufficient_response ''No valid citations were returned by the model.''
         else
           case (if valid_citations = []
                 then (case context_chunks of
                         [] \<Rightarrow> Inl IndexError
                       | chunk # _ \<Rightarrow> Inr [rc_id chunk])
                 else Inr valid_citations) of
             Inl e \<Rightarrow> ([], Inl e)
           | Inr valid_citations1 \<Rightarrow>
               if answer = [] then insufficient_response ''Model answer text was empty.''
               else if answer_is_uncertain answer
               then insufficient_response ''Model flagged uncertainty.''
               else
                 let selected_chunks = select_chunks cited_lookup valid_citations1 [] in
                 if selected_chunks = []
                 then insufficient_response ''No cited chunks were resolved to retrieval context.''
                 else evidence_stage env db settings document_id clean_question answer
                        selected_chunks)"

definition generation_stage ::
  "QAEnv \<Rightarrow> Database \<Rightarrow> Settings \<Rightarrow> uuid \<Rightarrow> string \<Rightarrow> RetrievedChunk list
     \<Rightarrow> log_entry list \<times> (py_error + AskQuestionResponse)" where
  "generation_stage env db settings document_id clean_question context_chunks =
     (case env_llm env clean_question context_chunks of
        Inl exc \<Rightarrow> ([], Inl (QAError (''Failed to generate answer: '' @ exc)))
      | Inr payload \<Rightarrow>
          (case answer_and_citations (env_parse_uuid env) (env_repr env) payload of
             (answer, cited_chunk_ids) \<Rightarrow>
               citation_stage env db settings document_id clean_question context_chunks
                 answer cited_chunk_ids))"

definition retrieval_stage ::
  "QAEnv \<Rightarrow> Database \<Rightarrow> Settings \<Rightarrow> uuid \<Rightarrow> string
     \<Rightarrow> log_entry list \<times> (py_error + AskQuestionResponse)" where
  "retrieval_stage env db settings document_id clean_question =
     (case env_retrieve env db document_id clean_question of
        Inl exc \<Rightarrow>
          (LogWarning ''Vector retrieval failed for %s: %s'' [LUuid document_id, LStr exc]
             # fst (insufficient_response ''Vector retrieval failed.''),
           snd (insufficient_response ''Vector retrieval failed.''))
      | Inr retrieved \<Rightarrow>
          if retrieved = [] then insufficient_response ''No retrievable chunks were found.''
          else if \<not> has_sufficient_retrieval_confidence settings retrieved
          then insufficient_response ''Retrieval confidence is below threshold.''
          else generation_stage env db settings document_id clean_question
                 (py_slice_to retrieved (retrieval_max_context_chunks settings)))"

definition api_key_configured :: "Settings \<Rightarrow> bool" where
  "api_key_configured settings =
     (case openai_api_key settings of None \<Rightarrow> False | Some k \<Rightarrow> k \<noteq> [])"

definition ask_question ::
  "QAEnv \<Rightarrow> Database \<Rightarrow> Settings \<Rightarrow> uuid \<Rightarrow> string
     \<Rightarrow> log_entry list \<times> (py_error + AskQuestionResponse)" where
  "ask_question env db settings document_id question =
     (let clean_question = py_strip question in
      if clean_question = [] then ([], Inl (InvalidQuestionError ''Question cannot be empty.''))
      else
        case get_document db document_id of
          None \<Rightarrow> ([], Inl (ValueError ''Document not found.''))
        | Some document \<Rightarrow>
            if doc_status document \<noteq> ''ready''
            then ([], Inl (DocumentNotReadyError ''Document is not ready for question answering.''))
            else if \<not> api_key_configured settings
            then ([], Inl (OpenAIConfigurationError ''OPENAI_API_KEY is not configured.''))
            else if openai_embedding_dimensions settings \<noteq> EMBEDDING_VECTOR_DIM
            then ([], Inl (OpenAIConfigurationError
                     ''OPENAI_EMBEDDING_DIMENSIONS must be 1536 for current schema.''))
            else
              case ensure_chunk_embeddings (env_embed env) db document_id of
                Inl exc \<Rightarrow> ([], Inl (QAError (''Failed to prepare chunk embeddings: '' @ exc)))
              | Inr db1 \<Rightarrow> retrieval_stage env db1 settings document_id clean_question)"

text \<open>
  The route \<^verbatim>\<open>ask_document_question\<close>: the status code and detail of the HTTP error, or
  the response. An exception that no clause catches reaches the handler of
  \<^verbatim>\<open>register_exception_handlers\<close>.
\<close>

definition ask_document_question ::
  "QAEnv \<Rightarrow> Database \<Rightarrow> Settings \<Rightarrow> string \<Rightarrow> string \<Rightarrow> (nat \<times> string) + AskQuestionResponse" where
  "ask_document_question env db settings document_id question =
     (case env_parse_uuid env document_id of
        None \<Rightarrow> Inl (404, ''Document not found: '' @ document_id)
      | Some document_uuid \<Rightarrow>
          (case get_document db document_uuid of
             None \<Rightarrow> Inl (404, ''Document not found: '' @ document_id)
           | Some document \<Rightarrow>
               (case snd (ask_question env db settings document_uuid question) of
                  Inr response \<Rightarrow> Inr response
                | Inl (InvalidQuestionError msg) \<Rightarrow> Inl (400, msg)
                | Inl (DocumentNotReadyError msg) \<Rightarrow> Inl (409, msg)
                | Inl (OpenAIConfigurationError msg) \<Rightarrow> Inl (500, msg)
                | Inl (QAError msg) \<Rightarrow> Inl (500, ''Question answering failed: '' @ msg)
                | Inl _ \<Rightarrow> Inl (500, ''Internal server error''))))"

text \<open>The checks of \<^verbatim>\<open>ask_question\<close> that come before any provider is called.\<close>

definition preflight_ok :: "Database \<Rightarrow> Settings \<Rightarrow> uuid \<Rightarrow> string \<Rightarrow> bool" where
  "preflight_ok db settings document_id question =
     (py_strip question \<noteq> []
      \<and> (case get_document db document_id of
           None \<Rightarrow> False | Some document \<Rightarrow> doc_status document = ''ready'')
      \<and> api_key_configured settings
      \<and> openai_embedding_dimensions settings = EMBEDDING_VECTOR_DIM)"

definition canned_response :: AskQuestionResponse where
  "canned_response =
     \<lparr> resp_answer = ''I don't have enough grounded evidence in this document to answer that confidently.'',
       resp_evidence = [] \<rparr>"

text \<open>
  A result of \<^verbatim>\<open>ask_question\<close> is grounded when it is an exception, or a response whose
  evidence is empty or passes \<^verbatim>\<open>_validate_evidence_mapping\<close>.
\<close>

definition grounded :: "Database \<Rightarrow> uuid \<Rightarrow> py_error + AskQuestionResponse \<Rightarrow> bool" where
  "grounded db document_id res =
     (case res of Inl e \<Rightarrow> True
      | Inr r \<Rightarrow> resp_evidence r = [] \<or> validate_evidence_mapping db document_id (resp_evidence r))"

text \<open>
  A sample run: the one-page document of the S5 scenario, ready, with one chunk that has
  no embedding yet; a model that answers ``Dr. A. Patel'' and cites the chunk and a chunk
  that was not retrieved.
\<close>

definition qa_settings :: Settings where
  "qa_settings = default_settings \<lparr> openai_api_key := Some ''sk-test'' \<rparr>"

definition sample_db :: Database where
  "sample_db =
     \<lparr> db_documents = [\<lparr> doc_id = 1, doc_status = ''ready'', doc_total_pages = Some 1,
                          doc_page_width = Some 612, doc_page_height = Some 792,
                          doc_error_message = None \<rparr>],
       db_pages = [\<lparr> page_id = 1, page_document_id = 1, page_number = 1,
                      page_width_pts = Some 612, page_height_pts = Some 792,
                      page_image_path = None \<rparr>],
       db_spans = s5_spans,
       db_chunks = [\<lparr> chunk_id = 7, chunk_document_id = 1, chunk_index = 0,
                       chunk_text = ''Signed by Dr. A. Patel Ordering doctor: B. Smith'',
                       chunk_page_start = Some 1, chunk_page_end = Some 1,
                       chunk_span_start_id = Some 1, chunk_span_end_id = Some 9,
                       chunk_embedding = None \<rparr>] \<rparr>"

definition sample_db_embedded :: Database where
  "sample_db_embedded =
     sample_db \<lparr> db_chunks := map (\<lambda>c. c \<lparr> chunk_embedding := Some [] \<rparr>) (db_chunks sample_db) \<rparr>"

definition sample_retrieved :: RetrievedChunk where
  "sample_retrieved =
     \<lparr> rc_id = 7, rc_chunk_index = 0,
       rc_text = ''Signed by Dr. A. Patel Ordering doctor: B. Smith'',
       rc_page_start = Some 1, rc_page_end = Some 1,
       rc_span_start_id = Some 1, rc_span_end_id = Some 9, rc_distance = Some 0.3 \<rparr>"

definition sample_parse_uuid :: "string \<Rightarrow> uuid option" where
  "sample_parse_uuid s =
     (if s = ''doc-1'' then Some 1 else if s = ''c1'' then Some 7
      else if s = ''c9999'' then Some 9999 else None)"

definition sample_payload :: "(string \<times> json) list" where
  "sample_payload =
     [(''answer'', JStr ''Dr. A. Patel''),
      (''citations'', JList [JDict [(''chunk_id'', JStr ''c1'')],
                             JDict [(''chunk_id'', JStr ''c9999'')],
                             JDict [(''chunk_id'', JStr ''c1'')]])]"

definition sample_repr :: "json \<Rightarrow> string" where
  "sample_repr v = ''?''"

definition sample_format_1f :: "real \<Rightarrow> string" where
  "sample_format_1f r = replicate (nat \<lfloor>r\<rfloor>) (CHR ''|'')"

definition sample_env :: QAEnv where
  "sample_env =
     \<lparr> env_embed = (\<lambda>texts. Inr (map (\<lambda>t. []) texts)),
       env_retrieve = (\<lambda>db document_id question. Inr [sample_retrieved]),
       env_llm = (\<lambda>question chunks. Inr sample_payload),
       env_parse_uuid = sample_parse_uuid,
       env_repr = sample_repr,
       env_similarity = no_similarity,
       env_format_1f = sample_format_1f \<rparr>"

definition provider_down_env :: QAEnv where
  "provider_down_env = sample_env \<lparr> env_embed := (\<lambda>texts. Inl ''provider down'') \<rparr>"

definition retrieval_down_env :: QAEnv where
  "retrieval_down_env =
     sample_env \<lparr> env_retrieve := (\<lambda>db document_id question. Inl ''connection reset'') \<rparr>"

definition sample_response :: AskQuestionResponse where
  "sample_response =
     \<lparr> resp_answer = ''Dr. A. Patel'',
       resp_evidence = [\<lparr> ev_page = 1, ev_text = ''Signed by Dr. A. Patel'',
                          ev_bbox = \<lparr> bbox_x1 = 10, bbox_y1 = 100, bbox_x2 = 140, bbox_y2 = 112 \<rparr>,
                          ev_page_width = Some 612, ev_page_height = Some 792 \<rparr>] \<rparr>"

text \<open>
  A configuration that takes no context chunk and does not require citations, a model
  that returns an empty answer without citations, and a model that answers but cites
  only a chunk that was not retrieved.
\<close>

definition no_context_settings :: Settings where
  "no_context_settings =
     qa_settings \<lparr> retrieval_max_context_chunks := 0, require_llm_citations := False \<rparr>"

definition empty_answer_payload :: "(string \<times> json) list" where
  "empty_answer_payload = [(''answer'', JStr []), (''citations'', JList [])]"

definition empty_answer_env :: QAEnv where
  "empty_answer_env = sample_env \<lparr> env_llm := (\<lambda>question chunks. Inr empty_answer_payload) \<rparr>"

definition uncited_payload :: "(string \<times> json) list" where
  "uncited_payload =
     [(''answer'', JStr ''Dr. A. Patel''),
      (''citations'', JList [JDict [(''chunk_id'', JStr ''c9999'')]])]"

definition uncited_env :: QAEnv where
  "uncited_env = sample_env \<lparr> env_llm := (\<lambda>question chunks. Inr uncited_payload) \<rparr>"

section \<open>Document processing: ingestion\<close>

text \<open>
  A word as the PDF library returns it: \<open>(x0, y0, x1, y1, text)\<close>. What the ingestion gets
  from outside the repository: the opened PDF or the exception of \<^verbatim>\<open>fitz.open\<close>; per page
  its rectangle, the exception of rendering and saving the image if any, the stored image
  path, the native words and the OCR words or the exception of reading them; the ids of
  new chunks; the text of the exception that the database raises on a violated check
  constraint of \<^verbatim>\<open>spans\<close> (\<open>x2 > x1\<close>, \<open>y2 > y1\<close>).
\<close>

type_synonym pdf_word = "real \<times> real \<times> real \<times> real \<times> string"

record PdfPage =
  pp_width :: real
  pp_height :: real
  pp_render :: "string option"
  pp_stored_image_path :: string
  pp_native_words :: "string + pdf_word list"
  pp_ocr_words :: "string + pdf_word list"

record IngestEnv =
  ie_open :: "string + PdfPage list"
  ie_new_uuid :: "nat \<Rightarrow> uuid"
  ie_integrity_error :: string

record ExtractedPageWords =
  epw_words :: "pdf_word list"
  epw_source :: string
  epw_attempted_ocr :: bool
  epw_native_word_count :: int
  epw_ocr_word_count :: int

text \<open>\<^verbatim>\<open>_extract_words\<close>: the words with a text that is not empty after stripping.\<close>

definition extract_words :: "pdf_word list \<Rightarrow> pdf_word list" where
  "extract_words raw =
     map (\<lambda>(x0, y0, x1, y1, t). (x0, y0, x1, y1, py_strip t))
       (filter (\<lambda>(x0, y0, x1, y1, t). py_strip t \<noteq> []) raw)"

definition word_quality_metrics :: "pdf_word list \<Rightarrow> int \<times> real" where
  "word_quality_metrics ws =
     (if ws = [] then (0, 0.0)
      else
        let compact = concat (map (\<lambda>(x0, y0, x1, y1, t). t) ws) in
        if compact = [] then (0, 0.0)
        else (int (length ws),
              real (length (filter is_alnum compact)) / real (length compact)))"

definition should_attempt_ocr :: "int \<times> real \<Rightarrow> Settings \<Rightarrow> bool" where
  "should_attempt_ocr word_metrics settings =
     (if \<not> ocr_fallback_enabled settings then False
      else fst word_metrics < ocr_trigger_min_words settings
           \<or> snd word_metrics < ocr_trigger_min_alnum_ratio settings)"

text \<open>
  \<^verbatim>\<open>_extract_words_with_fallback\<close>: a failure of the native extraction is raised, a failure
  of the OCR is caught and the native words are kept.
\<close>

definition extract_words_with_fallback :: "PdfPage \<Rightarrow> Settings \<Rightarrow> string + ExtractedPageWords" where
  "extract_words_with_fallback page settings =
     (case pp_native_words page of
        Inl exc \<Rightarrow> Inl exc
      | Inr raw_native \<Rightarrow>
          let native_words = extract_words raw_native;
              native_metrics = word_quality_metrics native_words
          in if \<not> should_attempt_ocr native_metrics settings
             then Inr \<lparr> epw_words = native_words, epw_source = ''native'',
                        epw_attempted_ocr = False,
                        epw_native_word_count = int (length native_words),
                        epw_ocr_word_count = 0 \<rparr>
             else
               (case pp_ocr_words page of
                  Inl exc \<Rightarrow>
                    Inr \<lparr> epw_words = native_words, epw_source = ''native'',
                          epw_attempted_ocr = True,
                          epw_native_word_count = int (length native_words),
                          epw_ocr_word_count = 0 \<rparr>
                | Inr raw_ocr \<Rightarrow>
                    let ocr_words = extract_words raw_ocr;
                        ocr_metrics = word_quality_metrics ocr_words
                    in (case should_use_ocr native_metrics ocr_metrics settings of
                          Inl e \<Rightarrow> Inl ''ZeroDivisionError''
                        | Inr use_ocr \<Rightarrow>
                            if use_ocr
                            then Inr \<lparr> epw_words = ocr_words, epw_source = ''ocr'',
                                       epw_attempted_ocr = True,
                                       epw_native_word_count = int (length native_words),
                                       epw_ocr_word_count = int (length ocr_words) \<rparr>
                            else Inr \<lparr> epw_words = native_words, epw_source = ''native'',
                                       epw_attempted_ocr = True,
                                       epw_native_word_count = int (length native_words),
                                       epw_ocr_word_count = int (length ocr_words) \<rparr>)))"

text \<open>
  The database session: the rows committed, the rows as the open transaction sees them,
  the two id sequences (a rollback does not reset them) and the trace of the flushes,
  commits and rollbacks issued.
\<close>

datatype session_op = OpFlush | OpCommit | OpRollback

record Session =
  sess_committed :: Database
  sess_working :: Database
  sess_page_seq :: int
  sess_span_seq :: int
  sess_trace :: "session_op list"

definition db_flush :: "Session \<Rightarrow> Session" where
  "db_flush s = s \<lparr> sess_trace := sess_trace s @ [OpFlush] \<rparr>"

definition db_commit :: "Session \<Rightarrow> Session" where
  "db_commit s = s \<lparr> sess_committed := sess_working s, sess_trace := sess_trace s @ [OpCommit] \<rparr>"

definition db_rollback :: "Session \<Rightarrow> Session" where
  "db_rollback s = s \<lparr> sess_working := sess_committed s, sess_trace := sess_trace s @ [OpRollback] \<rparr>"

text \<open>\<^verbatim>\<open>_reset_document_rows\<close>.\<close>

definition reset_document_rows :: "Session \<Rightarrow> uuid \<Rightarrow> Session" where
  "reset_document_rows s document_id =
     db_flush (s \<lparr> sess_working :=
       (sess_working s) \<lparr>
          db_chunks := filter (\<lambda>c. chunk_document_id c \<noteq> document_id) (db_chunks (sess_working s)),
          db_spans := filter (\<lambda>sp. span_document_id sp \<noteq> document_id) (db_spans (sess_working s)),
          db_pages := filter (\<lambda>p. page_document_id p \<noteq> document_id) (db_pages (sess_working s)) \<rparr> \<rparr>)"

text \<open>The loop over the words of a page: the spans added, with the running character cursor.\<close>

fun add_spans ::
  "uuid \<Rightarrow> int \<Rightarrow> pdf_word list \<Rightarrow> int \<Rightarrow> int \<Rightarrow> int \<Rightarrow> Span list" where
  "add_spans document_id page_row_id [] idx char_cursor next_id = []"
| "add_spans document_id page_row_id (w # rest) idx char_cursor next_id =
     (case w of (x0, y0, x1, y1, t) \<Rightarrow>
        let char_start = char_cursor;
            char_end = char_start + int (length t)
        in \<lparr> span_id = next_id, span_document_id = document_id, span_page_id = page_row_id,
             span_index = idx, span_text = t, span_x1 = x0, span_y1 = y0, span_x2 = x1,
             span_y2 = y1, span_char_start = Some char_start, span_char_end = Some char_end \<rparr>
           # add_spans document_id page_row_id rest (idx + 1) (char_end + 1) (next_id + 1))"

definition span_violates_check :: "Span \<Rightarrow> bool" where
  "span_violates_check sp = (\<not> span_x2 sp > span_x1 sp \<or> \<not> span_y2 sp > span_y1 sp)"

text \<open>
  The body of \<^verbatim>\<open>for page_idx in range(total_pages)\<close>, over the pages that remain: the
  session at the end or at the exception, and the exception or the span references.
\<close>

fun ingest_pages ::
  "IngestEnv \<Rightarrow> Settings \<Rightarrow> uuid \<Rightarrow> (nat \<times> PdfPage) list \<Rightarrow> Session \<Rightarrow> (Span \<times> int) list
     \<Rightarrow> Session \<times> (string + (Span \<times> int) list)" where
  "ingest_pages env settings document_id [] s span_refs = (s, Inr span_refs)"
| "ingest_pages env settings document_id (indexed_page # rest) s span_refs =
     (let page_no = int (fst indexed_page) + 1;
          page = snd indexed_page
      in case pp_render page of
           Some exc \<Rightarrow> (s, Inl exc)
         | None \<Rightarrow>
             let page_row = \<lparr> page_id = sess_page_seq s + 1, page_document_id = document_id,
                              page_number = page_no, page_width_pts = Some (pp_width page),
                              page_height_pts = Some (pp_height page),
                              page_image_path = Some (pp_stored_image_path page) \<rparr>;
                 s1 = db_flush (s \<lparr> sess_working :=
                                      (sess_working s) \<lparr> db_pages := db_pages (sess_working s) @ [page_row] \<rparr>,
                                    sess_page_seq := sess_page_seq s + 1 \<rparr>)
             in case extract_words_with_fallback page settings of
                  Inl exc \<Rightarrow> (s1, Inl exc)
                | Inr extracted_words \<Rightarrow>
                    let page_spans = add_spans document_id (page_id page_row)
                                       (epw_words extracted_words) 0 0 (sess_span_seq s1 + 1);
                        s2 = s1 \<lparr> sess_working :=
                                    (sess_working s1) \<lparr> db_spans := db_spans (sess_working s1) @ page_spans \<rparr>,
                                  sess_span_seq := sess_span_seq s1 + int (length page_spans) \<rparr>
                    in if list_ex span_violates_check page_spans
                       then (s2, Inl (ie_integrity_error env))
                       else ingest_pages env settings document_id rest (db_flush s2)
                              (span_refs @ map (\<lambda>sp. (sp, page_no)) page_spans))"

text \<open>The loop over the windows: the chunks added.\<close>

definition window_chunk ::
  "IngestEnv \<Rightarrow> uuid \<Rightarrow> (Span \<times> int) list \<Rightarrow> nat \<times> (nat \<times> nat) \<Rightarrow> Chunk list" where
  "window_chunk env document_id span_refs indexed_window =
     (let chunk_idx = fst indexed_window;
          start = fst (snd indexed_window);
          en = snd (snd indexed_window);
          window = take (en - start) (drop start span_refs)
      in if window = [] then []
         else
           let t = py_strip (join_space (map (\<lambda>r. span_text (fst r)) window)) in
           if t = [] then []
           else [\<lparr> chunk_id = ie_new_uuid env chunk_idx, chunk_document_id = document_id,
                    chunk_index = int chunk_idx, chunk_text = t,
                    chunk_page_start = Some (snd (hd window)),
                    chunk_page_end = Some (snd (last window)),
                    chunk_span_start_id = Some (span_id (fst (hd window))),
                    chunk_span_end_id = Some (span_id (fst (last window))),
                    chunk_embedding = None \<rparr>])"

definition update_document :: "Database \<Rightarrow> uuid \<Rightarrow> (Document \<Rightarrow> Document) \<Rightarrow> Database" where
  "update_document db document_id f =
     db \<lparr> db_documents := map (\<lambda>d. if doc_id d = document_id then f d else d) (db_documents db) \<rparr>"

text \<open>
  The \<^verbatim>\<open>try\<close> block of \<^verbatim>\<open>process_document_metadata\<close>: the session at its end or at the
  exception, and the text of the exception if one was raised.
\<close>

definition ingest_try_block ::
  "IngestEnv \<Rightarrow> Settings \<Rightarrow> uuid \<Rightarrow> Session \<Rightarrow> Session \<times> string option" where
  "ingest_try_block env settings document_id s =
     (case ie_open env of
        Inl exc \<Rightarrow> (s, Some exc)
      | Inr pdf \<Rightarrow>
          let total_pages = length pdf in
          if total_pages = 0 then (s, Some ''PDF has no pages.'')
          else
            let s1 = reset_document_rows s document_id;
                page_width = pp_width (hd pdf);
                page_height = pp_height (hd pdf)
            in case ingest_pages env settings document_id (zip [0..<total_pages] pdf) s1 [] of
                 (s2, Inl exc) \<Rightarrow> (s2, Some exc)
               | (s2, Inr span_refs) \<Rightarrow>
                   let windows = chunk_span_window span_refs;
                       chunks = concat (map (window_chunk env document_id span_refs)
                                          (zip [0..<length windows] windows));
                       w1 = (sess_working s2) \<lparr> db_chunks := db_chunks (sess_working s2) @ chunks \<rparr>;
                       w2 = update_document w1 document_id
                              (\<lambda>d. d \<lparr> doc_status := ''ready'',
                                        doc_total_pages := Some (int total_pages),
                                        doc_page_width := Some page_width,
                                        doc_page_height := Some page_height,
                                        doc_error_message := None \<rparr>)
                   in (db_commit (s2 \<lparr> sess_working := w2 \<rparr>), None))"

text \<open>
  \<^verbatim>\<open>process_document_metadata\<close>: the exception that leaves the function, if any, and the
  session afterwards. The \<^verbatim>\<open>except Exception\<close> clause is the second case.
\<close>

definition mark_error :: "string \<Rightarrow> Document \<Rightarrow> Document" where
  "mark_error exc d =
     d \<lparr> doc_status := ''error'', doc_total_pages := None, doc_page_width := None,
         doc_page_height := None,
         doc_error_message := Some (''Document processing failed: '' @ exc) \<rparr>"

definition process_document_metadata ::
  "IngestEnv \<Rightarrow> Settings \<Rightarrow> uuid \<Rightarrow> Session \<Rightarrow> string option \<times> Session" where
  "process_document_metadata env settings document_id s =
     (case get_document (sess_working s) document_id of
        None \<Rightarrow> (None, s)
      | Some document \<Rightarrow>
          (case ingest_try_block env settings document_id s of
             (s1, None) \<Rightarrow> (None, s1)
           | (s1, Some exc) \<Rightarrow>
               let s2 = db_rollback s1 in
               (case get_document (sess_working s2) document_id of
                  None \<Rightarrow> (None, s2)
                | Some document1 \<Rightarrow>
                    (None, db_commit (s2 \<lparr> sess_working :=
                             update_document (sess_working s2) document_id (mark_error exc) \<rparr>)))))"

text \<open>
  A sample run: a document in \<open>processing\<close>, and a PDF of two pages whose second page
  fails to render after the rows of the first page have been flushed.
\<close>

definition processing_db :: Database where
  "processing_db =
     \<lparr> db_documents = [\<lparr> doc_id = 1, doc_status = ''processing'', doc_total_pages = None,
                          doc_page_width = None, doc_page_height = None,
                          doc_error_message = None \<rparr>],
       db_pages = [], db_spans = [], db_chunks = [] \<rparr>"

definition fresh_session :: Session where
  "fresh_session =
     \<lparr> sess_committed = processing_db, sess_working = processing_db,
       sess_page_seq = 0, sess_span_seq = 0, sess_trace = [] \<rparr>"

definition good_page :: PdfPage where
  "good_page =
     \<lparr> pp_width = 612, pp_height = 792, pp_render = None,
       pp_stored_image_path = ''uploads/1/pages/page-0001.png'',
       pp_native_words = Inr [(10, 100, 50, 112, ''Signed''), (54, 100, 66, 112, ''by'')],
       pp_ocr_words = Inl ''tesseract missing'' \<rparr>"

definition broken_page :: PdfPage where
  "broken_page = good_page \<lparr> pp_render := Some ''cannot render page'' \<rparr>"

definition broken_pdf_env :: IngestEnv where
  "broken_pdf_env =
     \<lparr> ie_open = Inr [good_page, broken_page], ie_new_uuid = (\<lambda>n. of_nat n + 100),
       ie_integrity_error = ''IntegrityError'' \<rparr>"

text \<open>
  A stretch of a session is quiet when it leaves the committed rows as they were and
  issues nothing but flushes.
\<close>

definition quiet :: "Session \<Rightarrow> Session \<Rightarrow> bool" where
  "quiet s s' = (sess_committed s' = sess_committed s
     \<and> filter (\<lambda>op. op \<noteq> OpFlush) (sess_trace s') = filter (\<lambda>op. op \<noteq> OpFlush) (sess_trace s))"

definition processing_document :: Document where
  "processing_document =
     \<lparr> doc_id = 1, doc_status = ''processing'', doc_total_pages = None,
       doc_page_width = None, doc_page_height = None, doc_error_message = None \<rparr>"

section \<open>Properties of the ingestion pipeline\<close>

lemma pack_window_uniform:
  assumes "\<forall>k<length rs. length (span_text (fst (rs ! k))) = 20"
    and "start \<le> en" and "en \<le> length rs" and "en - start \<le> 42"
    and "tot = (if en = start then 0 else 21 * (en - start) - 1)"
  shows "pack_window rs start en tot = min (length rs) (start + 42)"
  using assms
proof (induction rs start en tot rule: pack_window.induct)
  case (1 rs start en tot)
  show ?case
  proof (cases "en < length rs")
    case False
    with "1.prems" show ?thesis
      by (subst pack_window.simps) auto
  next
    case True
    hence len: "length (span_text (fst (rs ! en))) = 20"
      using "1.prems"(1) by blast
    show ?thesis
    proof (cases "en = start")
      case eq: True
      have "pack_window rs start (en + 1) (tot + 20) = min (length rs) (start + 42)"
        using True eq "1.prems" len
        by (intro "1.IH"[where x = 20]) (auto simp: CHUNK_MAX_CHARS_def)
      thus ?thesis
        using True eq "1.prems"(5) len
        by (subst pack_window.simps) (simp add: CHUNK_MAX_CHARS_def)
    next
      case neq: False
      hence gt: "start < en" using "1.prems"(2) by simp
      hence tot: "tot = 21 * (en - start) - 1" "tot \<noteq> 0"
        using "1.prems"(5) by auto
      show ?thesis
      proof (cases "en - start = 42")
        case True
        thus ?thesis
          using \<open>en < length rs\<close> gt tot len
          by (subst pack_window.simps) (auto simp: CHUNK_MAX_CHARS_def)
      next
        case False
        hence lt: "en - start < 42" using "1.prems"(4) by simp
        have "pack_window rs start (en + 1) (tot + 21) = min (length rs) (start + 42)"
          using \<open>en < length rs\<close> gt tot len lt "1.prems"
          by (intro "1.IH"[where x = 21]) (auto simp: CHUNK_MAX_CHARS_def)
        thus ?thesis
          using \<open>en < length rs\<close> gt tot len lt
          by (subst pack_window.simps) (auto simp: CHUNK_MAX_CHARS_def)
      qed
    qed
  qed
qed

lemma chunk_windows_45:
  assumes "length rs = 45" and "\<forall>k<length rs. length (span_text (fst (rs ! k))) = 20"
  shows "chunk_span_window rs = [(0, 42), (22, 45)]"
proof -
  have p0: "pack_window rs 0 0 0 = 42"
    using pack_window_uniform[OF assms(2), of 0 0 0] assms(1) by simp
  have p1: "pack_window rs 22 22 0 = 45"
    using pack_window_uniform[OF assms(2), of 22 22 0] assms(1) by simp
  have ne: "rs \<noteq> []" using assms(1) by auto
  have "chunk_loop rs 22 [(0, 42)] = [(0, 42), (22, 45)]"
    by (subst chunk_loop.simps) (simp add: p1 assms(1))
  hence "chunk_loop rs 0 [] = [(0, 42), (22, 45)]"
    by (subst chunk_loop.simps) (simp add: p0 assms(1) CHUNK_OVERLAP_SPANS_def)
  thus ?thesis by (simp add: chunk_span_window_def ne)
qed

text \<open>
  Claim C2, as the code has it. For any global reading-order list of exactly 45 spans,
  each with a text of 20 characters, the chunker emits exactly two windows: the first
  covers positions 0..42 (42 spans), the second starts at 42 - 20 = 22 and runs to the end
  of the list (positions 22..45, 23 spans). It is the final window: the loop stops as soon
  as a window reaches the end of the list, so no third window starting at 24 is emitted.
\<close>

theorem chunk_span_window_s3:
  assumes "length span_refs = 45"
    and "\<forall>r \<in> set span_refs. length (span_text (fst r)) = 20"
  shows "chunk_span_window span_refs = [(0, 42), (22, 45)]"
  using chunk_windows_45[of span_refs] assms by simp

theorem chunk_span_window_s3_witness:
  "length s3_span_refs = 45
   \<and> list_all (\<lambda>r. length (span_text (fst r)) = 20) s3_span_refs
   \<and> chunk_span_window s3_span_refs = [(0, 42), (22, 45)]"
proof -
  have a: "length s3_span_refs = 45" by (simp add: s3_span_refs_def)
  have b: "\<forall>r \<in> set s3_span_refs. length (span_text (fst r)) = 20"
    by (simp add: s3_span_refs_def span_of_len_def)
  show ?thesis using chunk_span_window_s3[OF a b] a b by (simp add: list_all_iff)
qed

text \<open>
  Claim C2 as stated asks for three windows, the last one starting at position 24 with 21
  spans. On 45 spans of 20 characters the chunker returns two windows, not three.
\<close>

theorem chunk_span_window_s3_counterexample:
  "chunk_span_window s3_span_refs = [(0, 42), (22, 45)]
   \<and> length (chunk_span_window s3_span_refs) \<noteq> 3"
proof -
  have "chunk_span_window s3_span_refs = [(0, 42), (22, 45)]"
    by (rule chunk_windows_45) (simp_all add: s3_span_refs_def span_of_len_def)
  thus ?thesis by simp
qed

text \<open>
  Claim C9. The per-page quality score never fails, whatever \<open>ocr_trigger_min_words\<close> is
  (zero and negative values included): the divisor is \<open>max 1 ocr_trigger_min_words\<close>, so the
  fallible division always returns, and the value is
  \<open>0.55 * min 1 (word_count / max 1 ocr_trigger_min_words) + 0.45 * alnum_ratio\<close>.
\<close>

theorem word_quality_score_total:
  "word_quality_score (word_count, alnum_ratio) settings =
     Inr (0.55 * min 1 (real_of_int word_count / real_of_int (max 1 (ocr_trigger_min_words settings)))
          + 0.45 * alnum_ratio)"
  by (simp add: word_quality_score_def py_truediv_def Let_def)

text \<open>
  Claim C3 as stated takes the third condition as \<open>ocr_count \<ge> max 3 (native_count / 2)\<close>.
  For native metrics (7, 0.5) and OCR metrics (3, 0.7) none of the three stated conditions
  holds (3 < 3.5), yet the code uses OCR, because it compares with \<open>7 // 2 = 3\<close>.
\<close>

theorem should_use_ocr_counterexample:
  "should_use_ocr (7, 1/2) (3, 7/10) default_settings = Inr True
   \<and> \<not> spec_use_ocr (7, 1/2) (3, 7/10)"
  by (simp add: should_use_ocr_def word_quality_score_def py_truediv_def default_settings_def
      OCR_SCORE_MARGIN_def spec_use_ocr_def spec_score_def)

text \<open>
  Claim C3, amended. With \<open>ocr_trigger_min_words = 18\<close>: OCR with 0 words keeps native;
  otherwise native with 0 words uses OCR; otherwise OCR is used iff
  score(O) \<ge> score(N) + 0.04, or native_count < 18 and ocr_count > native_count, or
  ocr_ratio \<ge> native_ratio + 0.12 and ocr_count \<ge> max 3 (native_count // 2), the floor of
  half the native count. For native (10, 0.55) and OCR (25, 0.90) the scores are
  1991/3600 (0.553 to three decimals) and 0.955, and OCR is used.
\<close>

theorem should_use_ocr_arbitration:
  assumes "ocr_trigger_min_words settings = 18"
  shows "should_use_ocr (native_count, native_ratio) (ocr_count, ocr_ratio) settings =
           Inr (if ocr_count = 0 then False
                else if native_count = 0 then True
                else floor_use_ocr (native_count, native_ratio) (ocr_count, ocr_ratio))
         \<and> word_quality_score (10, 0.55) settings = Inr (1991 / 3600)
         \<and> \<bar>1991 / 3600 - 0.553\<bar> < (0.0005 :: real)
         \<and> word_quality_score (25, 0.90) settings = Inr 0.955
         \<and> should_use_ocr (10, 0.55) (25, 0.90) settings = Inr True"
  using assms
  by (simp add: should_use_ocr_def word_quality_score_def py_truediv_def
      OCR_SCORE_MARGIN_def floor_use_ocr_def spec_score_def Let_def)

theorem should_use_ocr_arbitration_witness:
  "ocr_trigger_min_words default_settings = 18
   \<and> should_use_ocr (10, 0.55) (25, 0.90) default_settings
       = Inr (floor_use_ocr (10, 0.55) (25, 0.90))
   \<and> floor_use_ocr (10, 0.55) (25, 0.90)"
proof -
  have h: "ocr_trigger_min_words default_settings = 18" by (simp add: default_settings_def)
  have "floor_use_ocr (10, 0.55) (25, 0.90)"
    by (simp add: floor_use_ocr_def spec_score_def)
  thus ?thesis using should_use_ocr_arbitration[OF h, of 10 "0.55" 25 "0.90"] h by simp
qed

section \<open>Properties of the evidence ranker\<close>

lemma fold_count_filter:
  "fold (\<lambda>x (n::int). if P x then n + 1 else n) xs a = a + int (length (filter P xs))"
  by (induction xs arbitrary: a) auto

lemma fold_weight_filter:
  "fold (\<lambda>x (r::real). if Q x then r else if P x then r + w x else r) xs a
     = a + sum_list (map w (filter (\<lambda>x. \<not> Q x \<and> P x) xs))"
  by (induction xs arbitrary: a) auto

lemma term_hits_kept:
  "term_hits term (normalized_tokens text) =
     (\<exists>token \<in> set (line_tokens text). 3 \<le> length token \<and> token \<notin> set QUESTION_STOPWORDS
        \<and> (term = token \<or> py_in term token \<or> py_in token term))"
  by (auto simp: term_hits_def normalized_tokens_def list_ex_iff)

text \<open>
  Claim C10. In the overlap count and in the weighted overlap score alike, a term counts
  only if it equals, contains or is contained in a token of the line that has at least 3
  characters and is not a stopword: the short tokens and the stopwords of the line are
  discarded before the matching. A line all of whose tokens are discarded has overlap
  count 0 and weighted score 0.
\<close>

theorem keyword_overlap_filters_line_tokens:
  "keyword_overlap_count text terms =
     int (length (filter (\<lambda>term. \<exists>token \<in> set (line_tokens text).
             3 \<le> length token \<and> token \<notin> set QUESTION_STOPWORDS
             \<and> (term = token \<or> py_in term token \<or> py_in token term)) terms))
   \<and> keyword_overlap_weighted_score text terms =
     sum_list (map term_weight (filter (\<lambda>term. term \<noteq> [] \<and> (\<exists>token \<in> set (line_tokens text).
             3 \<le> length token \<and> token \<notin> set QUESTION_STOPWORDS
             \<and> (term = token \<or> py_in term token \<or> py_in token term))) terms))
   \<and> ((\<forall>token \<in> set (line_tokens text). length token < 3 \<or> token \<in> set QUESTION_STOPWORDS)
        \<longrightarrow> keyword_overlap_count text terms = 0
            \<and> keyword_overlap_weighted_score text terms = 0)"
proof -
  let ?hit = "\<lambda>term. \<exists>token \<in> set (line_tokens text).
             3 \<le> length token \<and> token \<notin> set QUESTION_STOPWORDS
             \<and> (term = token \<or> py_in term token \<or> py_in token term)"
  have empty: "normalized_tokens text = [] \<Longrightarrow> \<not> ?hit tm" for tm
    using term_hits_kept[of tm "text"] by (simp add: term_hits_def)
  have c: "keyword_overlap_count text terms = int (length (filter ?hit terms))"
  proof (cases "terms = [] \<or> normalized_tokens text = []")
    case True
    thus ?thesis using empty by (auto simp: keyword_overlap_count_def)
  next
    case False
    thus ?thesis
      by (simp add: keyword_overlap_count_def Let_def fold_count_filter term_hits_kept)
  qed
  have w: "keyword_overlap_weighted_score text terms =
      sum_list (map term_weight (filter (\<lambda>term. term \<noteq> [] \<and> ?hit term) terms))"
  proof (cases "terms = [] \<or> normalized_tokens text = []")
    case True
    thus ?thesis using empty by (auto simp: keyword_overlap_weighted_score_def)
  next
    case False
    thus ?thesis
      by (simp add: keyword_overlap_weighted_score_def Let_def fold_weight_filter term_hits_kept)
  qed
  have z: "(\<forall>token \<in> set (line_tokens text). length token < 3 \<or> token \<in> set QUESTION_STOPWORDS)
        \<longrightarrow> keyword_overlap_count text terms = 0 \<and> keyword_overlap_weighted_score text terms = 0"
  proof
    assume a: "\<forall>token \<in> set (line_tokens text). length token < 3 \<or> token \<in> set QUESTION_STOPWORDS"
    hence "\<not> ?hit tm" for tm by auto
    thus "keyword_overlap_count text terms = 0 \<and> keyword_overlap_weighted_score text terms = 0"
      unfolding c w by simp
  qed
  from c w z show ?thesis by blast
qed

lemma line_tokens_example: "line_tokens ''the by at'' = [''the'', ''by'', ''at'']"
  by (simp add: line_tokens_def normalize_token_def py_lower_def lower_char_def
      ascii_upper_def ascii_lower_def ascii_digits_def is_alnum_def)

theorem keyword_overlap_filters_line_tokens_witness:
  "list_all (\<lambda>token. length token < 3 \<or> token \<in> set QUESTION_STOPWORDS) (line_tokens ''the by at'')
   \<and> py_in ''the'' ''theory''
   \<and> keyword_overlap_count ''the by at'' [''theory''] = 0
   \<and> keyword_overlap_weighted_score ''the by at'' [''theory''] = 0"
proof -
  have a: "\<forall>token \<in> set (line_tokens ''the by at''). length token < 3 \<or> token \<in> set QUESTION_STOPWORDS"
    by (simp add: line_tokens_example QUESTION_STOPWORDS_def)
  have b: "py_in ''the'' ''theory''" by (simp add: startswith_def)
  from keyword_overlap_filters_line_tokens[of "''the by at''" "[''theory'']"] a
  have "keyword_overlap_count ''the by at'' [''theory''] = 0
        \<and> keyword_overlap_weighted_score ''the by at'' [''theory''] = 0"
    by blast
  with a b show ?thesis by (simp add: list_all_iff)
qed

lemma walk_scored_spec:
  "0 < score_floor \<Longrightarrow> 0 < prev \<Longrightarrow>
   walk_scored score_floor d prev xs = spec_walk score_floor d prev xs"
proof (induction xs arbitrary: prev)
  case Nil
  show ?case by simp
next
  case (Cons e xs)
  show ?case
  proof (cases "sc_score e < score_floor")
    case True
    thus ?thesis by simp
  next
    case False
    hence "0 < sc_score e" using Cons.prems(1) by simp
    thus ?thesis using False Cons.prems Cons.IH[of "sc_score e"] by (simp add: Let_def)
  qed
qed

lemma filter_sort_key_mono:
  "filter_sort_key a \<le> filter_sort_key b \<Longrightarrow> sc_score b \<le> sc_score a"
  by (auto simp: filter_sort_key_def less_eq_prod_def)

lemma ordered_descending:
  "sorted (map (\<lambda>e. - sc_score e) (sort_key filter_sort_key xs))"
proof -
  have "sorted (map filter_sort_key (sort_key filter_sort_key xs))" by simp
  hence "sorted_wrt (\<lambda>a b. filter_sort_key a \<le> filter_sort_key b) (sort_key filter_sort_key xs)"
    by (simp add: sorted_map)
  hence "sorted_wrt (\<lambda>a b. - sc_score a \<le> - sc_score b) (sort_key filter_sort_key xs)"
    by (rule sorted_wrt_mono_rel[rotated]) (use filter_sort_key_mono in auto)
  thus ?thesis by (simp add: sorted_map)
qed

lemma spec_walk_below:
  "0 < score_floor \<Longrightarrow> \<forall>e \<in> set xs. sc_score e \<le> 0 \<Longrightarrow> spec_walk score_floor d prev xs = []"
  by (cases xs) auto

lemma sort_key_nonempty: "xs \<noteq> [] \<Longrightarrow> sort_key f xs \<noteq> []"
  by (metis length_sort list.size(3) length_0_conv)

text \<open>
  Claim C6. For settings in their ranges (a positive minimum absolute score, relative
  threshold and drop ratio between 0 and 1; the defaults 0.20, 0.60 and 0.72 are such),
  the global filter is the one the specification describes: the items sorted by descending
  score, the floor \<open>max min_absolute (best * relative)\<close>, the walk that stops at the first
  score below the floor or whose ratio to the score kept before is below the drop ratio,
  the truncation when \<open>answer_max_evidence_items\<close> is positive. The top item is always
  kept, and the survivors are displayed in the order (page, y1, x1, -score).
\<close>

theorem filter_scored_evidence_spec:
  assumes "scored_items \<noteq> []"
    and "0 < evidence_min_absolute_score settings"
    and "0 \<le> evidence_relative_score_threshold settings"
    and "evidence_relative_score_threshold settings \<le> 1"
    and "0 \<le> evidence_drop_ratio_stop settings"
    and "evidence_drop_ratio_stop settings \<le> 1"
  shows "filter_scored_evidence scored_items settings = spec_filter scored_items settings
    \<and> sorted (map (\<lambda>e. - sc_score e) (sort_key filter_sort_key scored_items))
    \<and> filter_scored_evidence scored_items settings \<noteq> []
    \<and> hd (filter_scored_evidence scored_items settings) = hd (sort_key filter_sort_key scored_items)
    \<and> filter_and_order scored_items settings
        = map sc_item (sort_key display_sort_key (spec_filter scored_items settings))"
proof -
  define ordered where "ordered = sort_key filter_sort_key scored_items"
  define best where "best = sc_score (hd ordered)"
  define k where "k = answer_max_evidence_items settings"
  have ne: "ordered \<noteq> []" using assms(1) by (simp add: ordered_def sort_key_nonempty)
  then obtain h t where ht: "ordered = h # t" by (cases ordered) auto
  have desc: "sorted (map (\<lambda>e. - sc_score e) ordered)"
    unfolding ordered_def by (rule ordered_descending)
  hence tl_le: "\<forall>e \<in> set t. sc_score e \<le> best"
    by (auto simp: ht best_def)
  have kpos: "0 < k \<Longrightarrow> take (nat k) (h # xs) = h # take (nat k - 1) xs" for xs
    by (cases "nat k") auto
  have eq: "filter_scored_evidence scored_items settings = spec_filter scored_items settings"
  proof (cases "best \<le> 0")
    case True
    have fl: "0 < max (evidence_min_absolute_score settings)
                     (best * evidence_relative_score_threshold settings)"
      using assms(2) by simp
    have "\<forall>e \<in> set t. sc_score e \<le> 0" using tl_le True by auto
    hence w: "spec_walk (max (evidence_min_absolute_score settings)
                     (best * evidence_relative_score_threshold settings))
               (evidence_drop_ratio_stop settings) best t = []"
      using fl by (rule spec_walk_below[rotated])
    show ?thesis
      using True assms(1) w kpos
      by (simp add: filter_scored_evidence_def spec_filter_def Let_def
          ordered_def[symmetric] best_def[symmetric] ht k_def[symmetric])
         (simp add: best_def ht)
  next
    case False
    hence bp: "0 < best" by simp
    have r: "min 1 (max 0 (evidence_relative_score_threshold settings))
              = evidence_relative_score_threshold settings"
      and d: "min 1 (max 0 (evidence_drop_ratio_stop settings)) = evidence_drop_ratio_stop settings"
      and a: "max 0 (evidence_min_absolute_score settings) = evidence_min_absolute_score settings"
      using assms by auto
    have fl: "0 < max (evidence_min_absolute_score settings)
                     (best * evidence_relative_score_threshold settings)"
      using assms(2) by simp
    show ?thesis
      using False assms(1) walk_scored_spec[OF fl bp]
      by (simp add: filter_scored_evidence_def spec_filter_def Let_def r d a
          ordered_def[symmetric] best_def[symmetric])
  qed
  have sne: "spec_filter scored_items settings \<noteq> []
           \<and> hd (spec_filter scored_items settings) = hd ordered"
    using kpos by (auto simp: spec_filter_def Let_def ordered_def[symmetric] ht k_def[symmetric])
  have disp: "filter_and_order scored_items settings
        = map sc_item (sort_key display_sort_key (spec_filter scored_items settings))"
    using assms(1) eq by (simp add: filter_and_order_def)
  show ?thesis using eq sne desc disp by (simp add: ordered_def)
qed

lemma sample_sorted:
  "sort_key filter_sort_key sample_scored = [sample_item 2 1.0, sample_item 1 0.9, sample_item 3 0.5]"
  by (simp add: sample_scored_def sample_item_def filter_sort_key_def less_eq_prod_def)

theorem filter_scored_evidence_spec_witness:
  "sample_scored \<noteq> []
   \<and> 0 < evidence_min_absolute_score default_settings
   \<and> 0 \<le> evidence_relative_score_threshold default_settings
   \<and> evidence_relative_score_threshold default_settings \<le> 1
   \<and> 0 \<le> evidence_drop_ratio_stop default_settings
   \<and> evidence_drop_ratio_stop default_settings \<le> 1
   \<and> spec_filter sample_scored default_settings = [sample_item 2 1.0, sample_item 1 0.9]
   \<and> filter_scored_evidence sample_scored default_settings = [sample_item 2 1.0, sample_item 1 0.9]
   \<and> filter_and_order sample_scored default_settings
        = [sc_item (sample_item 1 0.9), sc_item (sample_item 2 1.0)]"
proof -
  have h: "sample_scored \<noteq> []"
    "0 < evidence_min_absolute_score default_settings"
    "0 \<le> evidence_relative_score_threshold default_settings"
    "evidence_relative_score_threshold default_settings \<le> 1"
    "0 \<le> evidence_drop_ratio_stop default_settings"
    "evidence_drop_ratio_stop default_settings \<le> 1"
    by (simp_all add: sample_scored_def default_settings_def)
  have s: "spec_filter sample_scored default_settings = [sample_item 2 1.0, sample_item 1 0.9]"
    by (simp add: spec_filter_def sample_sorted Let_def)
       (simp add: default_settings_def sample_item_def)
  have d: "sort_key display_sort_key [sample_item 2 1.0, sample_item 1 0.9]
            = [sample_item 1 0.9, sample_item 2 1.0]"
    by (simp add: sample_item_def display_sort_key_def less_eq_prod_def)
  from filter_scored_evidence_spec[OF h] s d h show ?thesis by simp
qed

lemma startswith_map: "startswith s pre \<Longrightarrow> startswith (map f s) (map f pre)"
  by (metis startswith_def length_map take_map)

lemma py_in_map: "py_in needle s \<Longrightarrow> py_in (map f needle) (map f s)"
proof (induction s)
  case Nil
  thus ?case by simp
next
  case (Cons c cs)
  thus ?case using startswith_map[of "c # cs" needle f] by auto
qed

lemma lower_signed: "py_lower ''signed'' = ''signed''" "py_lower ''signature'' = ''signature''"
  by (simp_all add: py_lower_def lower_char_def ascii_upper_def ascii_lower_def)

lemma targets_signer:
  "py_in ''signed'' question \<or> py_in ''signature'' question
     \<Longrightarrow> question_targets_signer_evidence question"
  using py_in_map[of "''signed''" question lower_char] py_in_map[of "''signature''" question lower_char]
    lower_signed
  by (auto simp: question_targets_signer_evidence_def Let_def py_lower_def)

lemma py_strip_idem: "py_strip (py_strip s) = py_strip s"
proof -
  define u where "u = dropWhile is_space s"
  define t where "t = rev (dropWhile is_space (rev u))"
  have rt: "rev t = dropWhile is_space (rev u)" by (simp add: t_def)
  have d: "dropWhile is_space t = t"
  proof (cases "t = []")
    case True thus ?thesis by simp
  next
    case False
    have tk: "t = take (length t) u"
      by (metis append_eq_conv_conj rev_append rev_rev_ident rt takeWhile_dropWhile_id)
    have "u \<noteq> []" using False tk by auto
    hence "\<not> is_space (hd u)" unfolding u_def by (rule hd_dropWhile)
    moreover have "hd t = hd u" using False tk by (metis hd_take length_greater_0_conv)
    ultimately show ?thesis using False by (cases t) auto
  qed
  have "rev (dropWhile is_space (rev t)) = t"
    by (simp add: rt t_def)
  thus ?thesis using d by (simp add: py_strip_def u_def t_def)
qed

lemma ranked_entry_shape:
  assumes "entry \<in> set (rank_line_candidates_with_context cands q_terms a_terms qw aw)"
  shows "fst (snd entry) < length cands \<and> snd (snd entry) = cands ! fst (snd entry)"
proof -
  from assms obtain idx where "idx < length cands" "entry = ranked_entry cands q_terms a_terms qw aw idx"
    by (auto simp: rank_line_candidates_with_context_def split: if_splits)
  thus ?thesis by (simp add: ranked_entry_def Let_def)
qed

lemma signature_selected_indices:
  assumes "select_line_indices True q_terms a_terms mko cands
             (rank_line_candidates_with_context cands q_terms a_terms qw aw) = Some idxs"
    and "idx \<in> set idxs"
  shows "idx < length cands \<and> cand_signature_signal (cands ! idx) \<ge> SIGNATURE_SIGNAL_THRESHOLD"
proof -
  let ?ranked = "rank_line_candidates_with_context cands q_terms a_terms qw aw"
  from assms obtain entry where e: "entry \<in> set ?ranked" "fst (snd entry) = idx"
    "cand_signature_signal (snd (snd entry)) \<ge> SIGNATURE_SIGNAL_THRESHOLD"
    by (auto simp: select_line_indices_def Let_def split: if_splits)
  with ranked_entry_shape[OF e(1)] show ?thesis by auto
qed

lemma signature_none_selected:
  assumes "\<forall>cand \<in> set cands. cand_signature_signal cand < SIGNATURE_SIGNAL_THRESHOLD"
  shows "select_line_indices True q_terms a_terms mko cands
             (rank_line_candidates_with_context cands q_terms a_terms qw aw) = None"
proof -
  have "\<not> cand_signature_signal (snd (snd entry)) \<ge> SIGNATURE_SIGNAL_THRESHOLD"
    if "entry \<in> set (rank_line_candidates_with_context cands q_terms a_terms qw aw)" for entry
    using ranked_entry_shape[OF that] assms by (metis not_le nth_mem)
  hence "filter (\<lambda>entry. cand_signature_signal (snd (snd entry)) \<ge> SIGNATURE_SIGNAL_THRESHOLD)
           (rank_line_candidates_with_context cands q_terms a_terms qw aw) = []"
    by (simp add: filter_empty_conv)
  thus ?thesis by (simp add: select_line_indices_def)
qed

lemma index_item_built:
  "scored \<in> set (index_item page_no pw ph cands ranked idx)
     \<Longrightarrow> build_line_evidence_item page_no pw ph (cands ! idx) = Some (sc_item scored)"
  by (auto simp: index_item_def Let_def split: option.splits)

lemma line_candidate_signal:
  "line_candidate sim q_terms a_terms qw aw True line = Some cand
     \<Longrightarrow> cand_signature_signal cand = signature_line_signal sim (cand_text cand)
         \<and> py_strip (cand_text cand) = cand_text cand"
  by (auto simp: line_candidate_def Let_def py_strip_idem split: if_splits)

lemma page_candidate_signal:
  "cand \<in> set (page_line_candidates sim q_terms a_terms qw aw True spans)
     \<Longrightarrow> cand_signature_signal cand = signature_line_signal sim (cand_text cand)
         \<and> py_strip (cand_text cand) = cand_text cand"
  using line_candidate_signal
  by (auto simp: page_line_candidates_def List.map_filter_def split: option.splits)

lemma built_item_text:
  "build_line_evidence_item page_no pw ph cand = Some item \<Longrightarrow> ev_text item = py_strip (cand_text cand)"
  by (auto simp: build_line_evidence_item_def Let_def split: if_splits)

lemma page_items_signature:
  assumes "scored \<in> set (page_evidence_items sim q_terms a_terms mko qw aw True page_no pw ph spans)"
  shows "\<exists>cand \<in> set (page_line_candidates sim q_terms a_terms qw aw True spans).
           cand_signature_signal cand \<ge> SIGNATURE_SIGNAL_THRESHOLD
           \<and> cand_signature_signal cand = signature_line_signal sim (cand_text cand)
           \<and> build_line_evidence_item page_no pw ph cand = Some (sc_item scored)"
proof -
  let ?cands = "page_line_candidates sim q_terms a_terms qw aw True spans"
  let ?ranked = "rank_line_candidates_with_context ?cands q_terms a_terms qw aw"
  from assms obtain idxs idx where
    sel: "select_line_indices True q_terms a_terms mko ?cands ?ranked = Some idxs" and
    idx: "idx \<in> set idxs" and
    it: "scored \<in> set (index_item page_no pw ph ?cands ?ranked idx)"
    by (auto simp: page_evidence_items_def Let_def split: if_splits option.splits) metis
  from signature_selected_indices[OF sel idx]
  have a: "idx < length ?cands" "cand_signature_signal (?cands ! idx) \<ge> SIGNATURE_SIGNAL_THRESHOLD"
    by auto
  hence m: "?cands ! idx \<in> set ?cands" by simp
  show ?thesis
    using a m index_item_built[OF it] page_candidate_signal[OF m] by blast
qed

lemma page_items_signature_text:
  assumes "scored \<in> set (page_evidence_items sim q_terms a_terms mko qw aw True page_no pw ph spans)"
  shows "signature_line_signal sim (ev_text (sc_item scored)) \<ge> SIGNATURE_SIGNAL_THRESHOLD"
proof -
  from page_items_signature[OF assms] obtain cand where
    c: "cand \<in> set (page_line_candidates sim q_terms a_terms qw aw True spans)"
       "cand_signature_signal cand \<ge> SIGNATURE_SIGNAL_THRESHOLD"
       "cand_signature_signal cand = signature_line_signal sim (cand_text cand)"
       "build_line_evidence_item page_no pw ph cand = Some (sc_item scored)"
    by blast
  from built_item_text[OF c(4)] page_candidate_signal[OF c(1)] c(2,3) show ?thesis by simp
qed

lemma page_items_none:
  assumes "\<forall>cand \<in> set (page_line_candidates sim q_terms a_terms qw aw True spans).
             cand_signature_signal cand < SIGNATURE_SIGNAL_THRESHOLD"
  shows "page_evidence_items sim q_terms a_terms mko qw aw True page_no pw ph spans = []"
  using signature_none_selected[OF assms]
  by (simp add: page_evidence_items_def Let_def)

lemma chunk_items_signature_text:
  assumes "scored \<in> set (chunk_evidence_items sim db q_terms a_terms mko qw aw True doc chunk)"
  shows "signature_line_signal sim (ev_text (sc_item scored)) \<ge> SIGNATURE_SIGNAL_THRESHOLD"
proof -
  from assms obtain page_no pw ph spans where
    "scored \<in> set (page_evidence_items sim q_terms a_terms mko qw aw True page_no pw ph spans)"
    by (auto simp: chunk_evidence_items_def Let_def split: option.splits if_splits)
  thus ?thesis by (rule page_items_signature_text)
qed

text \<open>
  Claim C4. For a question that contains ``signed'' or ``signature'', signature mode is on,
  and then: every evidence item that \<^verbatim>\<open>_chunk_evidence_items\<close> returns has a text whose
  signature signal is at least 0.9; every item of a page is built from a line candidate of
  that page whose \<open>signature_signal\<close> is at least 0.9; and a page none of whose line
  candidates reaches 0.9 yields no evidence item at all.
\<close>

theorem signature_mode_selection:
  assumes "py_in ''signed'' question \<or> py_in ''signature'' question"
  shows "question_targets_signer_evidence question
    \<and> (\<forall>scored \<in> set (chunk_evidence_items sim db q_terms a_terms mko qw aw
                          (question_targets_signer_evidence question) doc chunk).
          signature_line_signal sim (ev_text (sc_item scored)) \<ge> 0.9)
    \<and> (\<forall>scored \<in> set (page_evidence_items sim q_terms a_terms mko qw aw
                          (question_targets_signer_evidence question) page_no pw ph spans).
          \<exists>cand \<in> set (page_line_candidates sim q_terms a_terms qw aw True spans).
             cand_signature_signal cand \<ge> 0.9
             \<and> build_line_evidence_item page_no pw ph cand = Some (sc_item scored))
    \<and> ((\<forall>cand \<in> set (page_line_candidates sim q_terms a_terms qw aw True spans).
            cand_signature_signal cand < 0.9)
        \<longrightarrow> page_evidence_items sim q_terms a_terms mko qw aw
              (question_targets_signer_evidence question) page_no pw ph spans = [])"
proof -
  have t: "question_targets_signer_evidence question" using assms by (rule targets_signer)
  have a: "\<forall>scored \<in> set (chunk_evidence_items sim db q_terms a_terms mko qw aw True doc chunk).
          signature_line_signal sim (ev_text (sc_item scored)) \<ge> 0.9"
    using chunk_items_signature_text[of _ sim db q_terms a_terms mko qw aw doc chunk]
    by (simp add: SIGNATURE_SIGNAL_THRESHOLD_def)
  have b: "\<forall>scored \<in> set (page_evidence_items sim q_terms a_terms mko qw aw True page_no pw ph spans).
          \<exists>cand \<in> set (page_line_candidates sim q_terms a_terms qw aw True spans).
             cand_signature_signal cand \<ge> 0.9
             \<and> build_line_evidence_item page_no pw ph cand = Some (sc_item scored)"
    using page_items_signature[of _ sim q_terms a_terms mko qw aw page_no pw ph spans]
    unfolding SIGNATURE_SIGNAL_THRESHOLD_def by blast
  have c: "(\<forall>cand \<in> set (page_line_candidates sim q_terms a_terms qw aw True spans).
            cand_signature_signal cand < 0.9)
        \<longrightarrow> page_evidence_items sim q_terms a_terms mko qw aw True page_no pw ph spans = []"
    using page_items_none[of sim q_terms a_terms qw aw spans mko page_no pw ph]
    by (simp add: SIGNATURE_SIGNAL_THRESHOLD_def)
  from t a b c show ?thesis by simp
qed

lemma s5_signature_items:
  "map (\<lambda>s. ev_text (sc_item s))
     (page_evidence_items no_similarity (tokenize_question_terms s5_question)
        (tokenize_question_terms s5_answer) 1 0.2 0.8 True 1 None None s5_spans)
   = [''Signed by Dr. A. Patel'']"
  by code_simp

lemma s5_signal: "signature_line_signal no_similarity ''Signed by Dr. A. Patel'' = 2.25"
  by code_simp

lemma s5_no_signature_page:
  "list_all (\<lambda>cand. cand_signature_signal cand < 0.9)
     (page_line_candidates no_similarity (tokenize_question_terms s5_question)
        (tokenize_question_terms s5_answer) 0.2 0.8 True (drop 5 s5_spans))"
  by code_simp

theorem signature_mode_selection_witness:
  "py_in ''signed'' s5_question
   \<and> question_targets_signer_evidence s5_question
   \<and> map (\<lambda>s. ev_text (sc_item s))
        (page_evidence_items no_similarity (tokenize_question_terms s5_question)
           (tokenize_question_terms s5_answer) 1 0.2 0.8
           (question_targets_signer_evidence s5_question) 1 None None s5_spans)
       = [''Signed by Dr. A. Patel'']
   \<and> signature_line_signal no_similarity ''Signed by Dr. A. Patel'' = 2.25
   \<and> page_evidence_items no_similarity (tokenize_question_terms s5_question)
        (tokenize_question_terms s5_answer) 1 0.2 0.8
        (question_targets_signer_evidence s5_question) 1 None None (drop 5 s5_spans) = []"
proof -
  have h: "py_in ''signed'' s5_question \<or> py_in ''signature'' s5_question"
    by (simp add: s5_question_def startswith_def)
  have p: "py_in ''signed'' s5_question"
    by (simp add: s5_question_def startswith_def)
  note th = signature_mode_selection[OF h, where sim = no_similarity
      and q_terms = "tokenize_question_terms s5_question"
      and a_terms = "tokenize_question_terms s5_answer"
      and mko = 1 and qw = "0.2" and aw = "0.8" and page_no = 1 and pw = None and ph = None
      and spans = "drop 5 s5_spans"]
  from th have t: "question_targets_signer_evidence s5_question" by blast
  have none: "\<forall>cand \<in> set (page_line_candidates no_similarity (tokenize_question_terms s5_question)
        (tokenize_question_terms s5_answer) 0.2 0.8 True (drop 5 s5_spans)).
        cand_signature_signal cand < 0.9"
    using s5_no_signature_page by (simp add: list_all_iff)
  from th none have e: "page_evidence_items no_similarity (tokenize_question_terms s5_question)
        (tokenize_question_terms s5_answer) 1 0.2 0.8
        (question_targets_signer_evidence s5_question) 1 None None (drop 5 s5_spans) = []"
    by blast
  show ?thesis using p t e s5_signature_items s5_signal by simp
qed

section \<open>Properties of the orchestrator\<close>

lemma canned_eq: "snd (insufficient_response reason) = Inr canned_response"
  by (simp add: insufficient_response_def canned_response_def INSUFFICIENT_EVIDENCE_ANSWER_def)

lemma ask_question_preflight:
  assumes "preflight_ok db settings document_id question"
  shows "ask_question env db settings document_id question =
     (case ensure_chunk_embeddings (env_embed env) db document_id of
        Inl exc \<Rightarrow> ([], Inl (QAError (''Failed to prepare chunk embeddings: '' @ exc)))
      | Inr db1 \<Rightarrow> retrieval_stage env db1 settings document_id (py_strip question))"
  using assms
  by (auto simp: preflight_ok_def ask_question_def Let_def split: option.splits)

lemma ensure_first_batch_fails:
  assumes "missing_chunks_of db document_id \<noteq> []"
    and "provider (map chunk_text (take 64 (missing_chunks_of db document_id))) = Inl exc"
  shows "ensure_chunk_embeddings provider db document_id = Inl exc"
  using assms
  by (simp add: ensure_chunk_embeddings_def Let_def embed_batches.simps[of provider "missing_chunks_of db document_id"])

lemma ensure_keeps_spans:
  "ensure_chunk_embeddings provider db document_id = Inr db1
     \<Longrightarrow> span_page_rows db1 = span_page_rows db"
  by (auto simp: ensure_chunk_embeddings_def Let_def span_page_rows_def split: if_splits sum.splits)

lemma route_result:
  assumes "preflight_ok db settings document_id question"
    and "env_parse_uuid env doc_str = Some document_id"
  shows "ask_document_question env db settings doc_str question =
     (case snd (ask_question env db settings document_id question) of
        Inr response \<Rightarrow> Inr response
      | Inl (InvalidQuestionError msg) \<Rightarrow> Inl (400, msg)
      | Inl (DocumentNotReadyError msg) \<Rightarrow> Inl (409, msg)
      | Inl (OpenAIConfigurationError msg) \<Rightarrow> Inl (500, msg)
      | Inl (QAError msg) \<Rightarrow> Inl (500, ''Question answering failed: '' @ msg)
      | Inl _ \<Rightarrow> Inl (500, ''Internal server error''))"
  using assms
  by (auto simp: preflight_ok_def ask_document_question_def split: option.splits)

text \<open>
  Claim C8. Once the checks before the providers have passed: when the back-fill of the
  missing chunk embeddings fails (as it does when the provider fails on the first batch),
  \<^verbatim>\<open>ask_question\<close> raises \<^verbatim>\<open>QAError\<close> and the route answers with HTTP 500; when instead
  the vector retrieval fails, the failure is logged as a warning and the result is the
  canned insufficient-evidence response, which the route returns.
\<close>

theorem backfill_raises_retrieval_cans:
  assumes "preflight_ok db settings document_id question"
    and "env_parse_uuid env doc_str = Some document_id"
  shows
    "(ensure_chunk_embeddings (env_embed env) db document_id = Inl exc \<longrightarrow>
        ask_question env db settings document_id question
          = ([], Inl (QAError (''Failed to prepare chunk embeddings: '' @ exc)))
        \<and> ask_document_question env db settings doc_str question
          = Inl (500, ''Question answering failed: Failed to prepare chunk embeddings: '' @ exc))
     \<and> (missing_chunks_of db document_id \<noteq> []
          \<and> env_embed env (map chunk_text (take 64 (missing_chunks_of db document_id))) = Inl exc
        \<longrightarrow> ensure_chunk_embeddings (env_embed env) db document_id = Inl exc)
     \<and> (ensure_chunk_embeddings (env_embed env) db document_id = Inr db1
          \<and> env_retrieve env db1 document_id (py_strip question) = Inl exc \<longrightarrow>
        ask_question env db settings document_id question
          = ([LogWarning ''Vector retrieval failed for %s: %s'' [LUuid document_id, LStr exc],
              LogInfo ''Returning insufficient evidence response: %s''
                [LStr ''Vector retrieval failed.'']],
             Inr canned_response)
        \<and> ask_document_question env db settings doc_str question = Inr canned_response)"
proof -
  note a = ask_question_preflight[OF assms(1), of env]
  note r = route_result[OF assms]
  have 1: "ensure_chunk_embeddings (env_embed env) db document_id = Inl exc \<longrightarrow>
        ask_question env db settings document_id question
          = ([], Inl (QAError (''Failed to prepare chunk embeddings: '' @ exc)))
        \<and> ask_document_question env db settings doc_str question
          = Inl (500, ''Question answering failed: Failed to prepare chunk embeddings: '' @ exc)"
    by (simp add: a r)
  have 2: "missing_chunks_of db document_id \<noteq> []
          \<and> env_embed env (map chunk_text (take 64 (missing_chunks_of db document_id))) = Inl exc
        \<longrightarrow> ensure_chunk_embeddings (env_embed env) db document_id = Inl exc"
    using ensure_first_batch_fails by blast
  have 3: "ensure_chunk_embeddings (env_embed env) db document_id = Inr db1
          \<and> env_retrieve env db1 document_id (py_strip question) = Inl exc \<longrightarrow>
        ask_question env db settings document_id question
          = ([LogWarning ''Vector retrieval failed for %s: %s'' [LUuid document_id, LStr exc],
              LogInfo ''Returning insufficient evidence response: %s''
                [LStr ''Vector retrieval failed.'']],
             Inr canned_response)
        \<and> ask_document_question env db settings doc_str question = Inr canned_response"
    by (simp add: a r retrieval_stage_def canned_eq)
       (simp add: insufficient_response_def)
  from 1 2 3 show ?thesis by blast
qed

lemma validate_sound:
  "validate_evidence_mapping db document_id evidence \<Longrightarrow>
   \<forall>item \<in> set evidence.
      bbox_x1 (ev_bbox item) < bbox_x2 (ev_bbox item)
      \<and> bbox_y1 (ev_bbox item) < bbox_y2 (ev_bbox item)
      \<and> (\<exists>row \<in> set (span_page_rows db). span_overlaps document_id item row)"
proof (induction evidence)
  case Nil
  show ?case by simp
next
  case (Cons item rest)
  from Cons.prems have nd: "bbox_x1 (ev_bbox item) < bbox_x2 (ev_bbox item)"
      "bbox_y1 (ev_bbox item) < bbox_y2 (ev_bbox item)"
    and f: "find (span_overlaps document_id item) (span_page_rows db) \<noteq> None"
    and r: "validate_evidence_mapping db document_id rest"
    by (auto split: if_splits)
  from f have "\<exists>row \<in> set (span_page_rows db). span_overlaps document_id item row"
    by (auto simp: find_None_iff)
  with nd Cons.IH[OF r] show ?case by simp
qed

lemma grounded_insufficient: "grounded db document_id (snd (insufficient_response reason))"
  by (simp add: grounded_def insufficient_response_def)

lemma grounded_evidence_stage:
  "grounded db document_id (snd (evidence_stage env db settings document_id q answer chunks))"
  by (simp add: evidence_stage_def Let_def grounded_insufficient) (simp add: grounded_def)

lemma grounded_citation_stage:
  "grounded db document_id
     (snd (citation_stage env db settings document_id q context_chunks answer cited))"
  by (auto simp: citation_stage_def Let_def grounded_insufficient grounded_evidence_stage
      split: list.splits) (simp add: grounded_def)

lemma grounded_generation_stage:
  "grounded db document_id (snd (generation_stage env db settings document_id q context_chunks))"
  by (auto simp: generation_stage_def grounded_citation_stage split: sum.splits prod.splits)
     (simp add: grounded_def)

lemma grounded_retrieval_stage:
  "grounded db document_id (snd (retrieval_stage env db settings document_id q))"
  by (auto simp: retrieval_stage_def grounded_insufficient grounded_generation_stage
      split: sum.splits)

lemma validate_rows_cong:
  "span_page_rows db1 = span_page_rows db \<Longrightarrow>
   validate_evidence_mapping db1 document_id evidence = validate_evidence_mapping db document_id evidence"
  by (induction evidence) auto

lemma grounded_ask_question:
  "grounded db document_id (snd (ask_question env db settings document_id question))"
proof -
  have "grounded db document_id (snd (retrieval_stage env db1 settings document_id q))"
    if "ensure_chunk_embeddings (env_embed env) db document_id = Inr db1" for db1 q
    using grounded_retrieval_stage[of db1 document_id env settings q]
      validate_rows_cong[OF ensure_keeps_spans[OF that]]
    by (simp add: grounded_def split: sum.splits)
  thus ?thesis
    by (auto simp: ask_question_def Let_def split: option.splits sum.splits)
       (simp_all add: grounded_def)
qed

lemma cited_lookup_member:
  "(cited_lookup_of context_chunks cid \<noteq> None) = (cid \<in> rc_id ` set context_chunks)"
  by (force simp: cited_lookup_of_def map_of_eq_None_iff image_iff)

lemma valid_citations_filter:
  "valid_citations_of context_chunks cited = filter (\<lambda>cid. cid \<in> rc_id ` set context_chunks) cited"
  unfolding valid_citations_of_def cited_lookup_member by (rule refl)

lemma first_occurrences_snoc:
  "first_occurrences (xs @ [x]) = (if x \<in> set xs then first_occurrences xs else first_occurrences xs @ [x])"
  by (simp add: first_occurrences_def)

lemma remdups_skip: "x \<in> set bs \<Longrightarrow> remdups (as @ x # bs) = remdups (as @ bs)"
  by (induction as) auto

lemma first_occurrences_skip:
  "x \<in> set xs \<Longrightarrow> first_occurrences (xs @ x # ys) = first_occurrences (xs @ ys)"
  by (simp add: first_occurrences_def remdups_skip)

lemma first_occurrences_distinct: "distinct (first_occurrences xs)"
  by (simp add: first_occurrences_def)

lemma first_occurrences_id: "distinct xs \<Longrightarrow> first_occurrences xs = xs"
  by (simp add: first_occurrences_def distinct_remdups_id)

lemma first_occurrences_append_new:
  "x \<notin> set xs \<Longrightarrow> first_occurrences (xs @ x # ys) = first_occurrences ((xs @ [x]) @ ys)"
  by simp

lemma collect_chunk_ids_acc:
  assumes falsy: "\<forall>v. \<not> py_truthy v \<longrightarrow> parse_uuid (py_str repr v) = None"
  shows "distinct acc \<Longrightarrow>
         collect_chunk_ids parse_uuid repr citations acc
           = first_occurrences (acc @ List.map_filter (citation_uuid parse_uuid repr) citations)"
proof (induction citations arbitrary: acc)
  case Nil
  thus ?case by (simp add: List.map_filter_simps first_occurrences_id)
next
  case (Cons citation rest)
  show ?case
  proof (cases "citation_uuid parse_uuid repr citation")
    case None
    hence "collect_chunk_ids parse_uuid repr (citation # rest) acc
            = collect_chunk_ids parse_uuid repr rest acc"
      by (auto simp: citation_uuid_def split: json.splits option.splits)
    thus ?thesis using None Cons by (simp add: List.map_filter_simps)
  next
    case (Some u)
    then obtain kvs raw_id where c: "citation = JDict kvs" "map_of kvs ''chunk_id'' = Some raw_id"
      "parse_uuid (py_str repr raw_id) = Some u"
      by (auto simp: citation_uuid_def split: json.splits option.splits)
    hence t: "py_truthy raw_id" using falsy by force
    show ?thesis
    proof (cases "u \<in> set acc")
      case True
      hence "collect_chunk_ids parse_uuid repr (citation # rest) acc
            = collect_chunk_ids parse_uuid repr rest acc"
        using c t by simp
      thus ?thesis using Some True Cons
        by (simp add: List.map_filter_simps first_occurrences_skip)
    next
      case False
      hence "collect_chunk_ids parse_uuid repr (citation # rest) acc
            = collect_chunk_ids parse_uuid repr rest (acc @ [u])"
        using c t by simp
      moreover have "distinct (acc @ [u])" using False Cons.prems by simp
      ultimately show ?thesis using Some Cons.IH[of "acc @ [u]"]
        by (simp add: List.map_filter_simps)
    qed
  qed
qed

lemma select_top1:
  assumes "context_chunks = c # cs" and "distinct (map rc_id context_chunks)"
  shows "select_chunks (cited_lookup_of context_chunks) [rc_id c] [] = [c]"
proof -
  let ?kvs = "rev (map (\<lambda>chunk. (rc_id chunk, chunk)) context_chunks)"
  have d: "distinct (map fst ?kvs)"
    using assms(2) by (simp add: rev_map[symmetric] comp_def)
  have m: "(rc_id c, c) \<in> set ?kvs" by (simp add: assms(1))
  have "cited_lookup_of context_chunks (rc_id c) = Some c"
    unfolding cited_lookup_of_def using d m by (rule map_of_is_SomeI)
  thus ?thesis by simp
qed

text \<open>
  The citations. Given that a falsy \<open>chunk_id\<close> value never parses as a UUID (as in the
  library): the citations extracted are the \<open>chunk_id\<close> values that parse as UUIDs, in
  order, each at its first occurrence; the valid citations are those among the ids of the
  context chunks; with none valid and \<open>require_llm_citations\<close> set, the response is the
  canned one; with none valid, \<open>require_llm_citations\<close> unset and a non-empty context
  with distinct ids, the run goes on exactly as if the model had cited the first context
  chunk alone. Citations \<open>[c1, c9999]\<close> with only \<open>c1\<close> in the context reduce to \<open>[c1]\<close>.
\<close>

theorem citations_extracted_and_intersected:
  assumes "\<forall>v. \<not> py_truthy v \<longrightarrow> parse_uuid (py_str repr v) = None"
  shows
    "collect_chunk_ids parse_uuid repr citations []
        = first_occurrences (List.map_filter (citation_uuid parse_uuid repr) citations)
     \<and> distinct (collect_chunk_ids parse_uuid repr citations [])
     \<and> snd (answer_and_citations parse_uuid repr payload)
        = (case map_of payload ''citations'' of
             Some (JList cs) \<Rightarrow> first_occurrences (List.map_filter (citation_uuid parse_uuid repr) cs)
           | _ \<Rightarrow> [])
     \<and> valid_citations_of context_chunks cited
        = filter (\<lambda>cid. cid \<in> rc_id ` set context_chunks) cited
     \<and> (require_llm_citations settings \<and> valid_citations_of context_chunks cited = [] \<longrightarrow>
          snd (citation_stage env db settings document_id q context_chunks answer cited)
            = Inr canned_response)
     \<and> (\<not> require_llm_citations settings \<and> valid_citations_of context_chunks cited = []
          \<and> context_chunks \<noteq> [] \<and> distinct (map rc_id context_chunks) \<longrightarrow>
          citation_stage env db settings document_id q context_chunks answer cited
            = citation_stage env db settings document_id q context_chunks answer
                [rc_id (hd context_chunks)]
          \<and> valid_citations_of context_chunks [rc_id (hd context_chunks)]
               = [rc_id (hd context_chunks)]
          \<and> (answer \<noteq> [] \<and> \<not> answer_is_uncertain answer \<longrightarrow>
               citation_stage env db settings document_id q context_chunks answer cited
                 = evidence_stage env db settings document_id q answer [hd context_chunks]))
     \<and> (c1 \<in> rc_id ` set context_chunks \<and> c9999 \<notin> rc_id ` set context_chunks \<longrightarrow>
          valid_citations_of context_chunks [c1, c9999] = [c1])"
proof -
  have col: "collect_chunk_ids parse_uuid repr cs []
        = first_occurrences (List.map_filter (citation_uuid parse_uuid repr) cs)" for cs
    using collect_chunk_ids_acc[OF assms, of "[]" cs] by simp
  have p1: "collect_chunk_ids parse_uuid repr citations []
        = first_occurrences (List.map_filter (citation_uuid parse_uuid repr) citations)"
    by (rule col)
  have p2: "distinct (collect_chunk_ids parse_uuid repr citations [])"
    unfolding p1 by (rule first_occurrences_distinct)
  have p3: "snd (answer_and_citations parse_uuid repr payload)
        = (case map_of payload ''citations'' of
             Some (JList cs) \<Rightarrow> first_occurrences (List.map_filter (citation_uuid parse_uuid repr) cs)
           | _ \<Rightarrow> [])"
    by (simp add: answer_and_citations_def Let_def col split: option.splits json.splits)
  have p4: "valid_citations_of context_chunks cited
        = filter (\<lambda>cid. cid \<in> rc_id ` set context_chunks) cited"
    by (rule valid_citations_filter)
  have p5: "require_llm_citations settings \<and> valid_citations_of context_chunks cited = [] \<longrightarrow>
          snd (citation_stage env db settings document_id q context_chunks answer cited)
            = Inr canned_response"
    by (simp add: citation_stage_def Let_def canned_eq)
  have p6: "\<not> require_llm_citations settings \<and> valid_citations_of context_chunks cited = []
          \<and> context_chunks \<noteq> [] \<and> distinct (map rc_id context_chunks) \<longrightarrow>
          citation_stage env db settings document_id q context_chunks answer cited
            = citation_stage env db settings document_id q context_chunks answer
                [rc_id (hd context_chunks)]
          \<and> valid_citations_of context_chunks [rc_id (hd context_chunks)]
               = [rc_id (hd context_chunks)]
          \<and> (answer \<noteq> [] \<and> \<not> answer_is_uncertain answer \<longrightarrow>
               citation_stage env db settings document_id q context_chunks answer cited
                 = evidence_stage env db settings document_id q answer [hd context_chunks])"
  proof (intro impI, elim conjE)
    assume nr: "\<not> require_llm_citations settings"
      and nv: "valid_citations_of context_chunks cited = []"
      and ne: "context_chunks \<noteq> []" and di: "distinct (map rc_id context_chunks)"
    from ne obtain c cs where cc: "context_chunks = c # cs" by (cases context_chunks) auto
    have v1: "valid_citations_of context_chunks [rc_id c] = [rc_id c]"
      by (simp add: valid_citations_filter cc)
    have s1: "select_chunks (cited_lookup_of context_chunks) [rc_id c] [] = [c]"
      using select_top1[OF cc di] .
    have a: "citation_stage env db settings document_id q context_chunks answer cited
            = citation_stage env db settings document_id q context_chunks answer [rc_id c]"
      using nr nv v1 by (simp add: citation_stage_def Let_def cc)
    have b: "answer \<noteq> [] \<and> \<not> answer_is_uncertain answer \<longrightarrow>
               citation_stage env db settings document_id q context_chunks answer cited
                 = evidence_stage env db settings document_id q answer [c]"
      using nr nv s1 by (simp add: citation_stage_def Let_def cc)
    from a b v1 show "citation_stage env db settings document_id q context_chunks answer cited
            = citation_stage env db settings document_id q context_chunks answer
                [rc_id (hd context_chunks)]
          \<and> valid_citations_of context_chunks [rc_id (hd context_chunks)]
               = [rc_id (hd context_chunks)]
          \<and> (answer \<noteq> [] \<and> \<not> answer_is_uncertain answer \<longrightarrow>
               citation_stage env db settings document_id q context_chunks answer cited
                 = evidence_stage env db settings document_id q answer [hd context_chunks])"
      by (simp add: cc)
  qed
  have p7: "c1 \<in> rc_id ` set context_chunks \<and> c9999 \<notin> rc_id ` set context_chunks \<longrightarrow>
          valid_citations_of context_chunks [c1, c9999] = [c1]"
    by (simp add: valid_citations_filter)
  from p1 p2 p3 p4 p5 p6 p7 show ?thesis by blast
qed

text \<open>
  The gates on the runs where the step that replaces an empty list of valid citations
  does not raise. After the checks before the providers and the embedding back-fill have
  passed, each gate that is reached and fails gives the canned response: a retrieval
  error, an empty retrieval, a retrieval confidence below the threshold, no valid
  citation while citations are required, an empty answer, an uncertainty marker, too
  few evidence items, a failed evidence validation. On every run, a response with a
  non-empty evidence list has, for each item, \<open>x1 < x2\<close>, \<open>y1 < y2\<close> and a stored span of
  the document on the item's page that strictly overlaps the box.
\<close>

theorem gates_give_canned_response:
  assumes "preflight_ok db settings document_id question"
    and "ensure_chunk_embeddings (env_embed env) db document_id = Inr db1"
  shows
    "(env_retrieve env db1 document_id (py_strip question) = Inl exc \<longrightarrow>
        snd (ask_question env db settings document_id question) = Inr canned_response)
     \<and> (env_retrieve env db1 document_id (py_strip question) = Inr retrieved
          \<and> (retrieved = [] \<or> \<not> has_sufficient_retrieval_confidence settings retrieved) \<longrightarrow>
        snd (ask_question env db settings document_id question) = Inr canned_response)
     \<and> (env_retrieve env db1 document_id (py_strip question) = Inr retrieved
          \<and> retrieved \<noteq> [] \<and> has_sufficient_retrieval_confidence settings retrieved
          \<and> context_chunks = py_slice_to retrieved (retrieval_max_context_chunks settings)
          \<and> env_llm env (py_strip question) context_chunks = Inr payload
          \<and> answer_and_citations (env_parse_uuid env) (env_repr env) payload = (answer, cited)
          \<and> valid = filter (\<lambda>cid. cid \<in> rc_id ` set context_chunks) cited \<longrightarrow>
        (require_llm_citations settings \<and> valid = [] \<longrightarrow>
           snd (ask_question env db settings document_id question) = Inr canned_response)
        \<and> ((valid \<noteq> [] \<or> context_chunks \<noteq> [])
             \<and> (answer = [] \<or> answer_is_uncertain answer) \<longrightarrow>
           snd (ask_question env db settings document_id question) = Inr canned_response)
        \<and> ((valid \<noteq> [] \<or> context_chunks \<noteq> [])
             \<and> evidence = build_evidence (env_similarity env) (env_format_1f env) db1 settings
                            (py_strip question) answer document_id
                            (select_chunks (cited_lookup_of context_chunks)
                               (if valid = [] then [rc_id (hd context_chunks)] else valid) [])
             \<and> (int (length evidence) < minimum_evidence_items settings
                  \<or> \<not> validate_evidence_mapping db1 document_id evidence) \<longrightarrow>
           snd (ask_question env db settings document_id question) = Inr canned_response))
     \<and> (snd (ask_question env db settings document_id question) = Inr response
          \<and> resp_evidence response \<noteq> [] \<longrightarrow>
        (\<forall>item \<in> set (resp_evidence response).
            bbox_x1 (ev_bbox item) < bbox_x2 (ev_bbox item)
            \<and> bbox_y1 (ev_bbox item) < bbox_y2 (ev_bbox item)
            \<and> (\<exists>row \<in> set (span_page_rows db).
                  span_document_id (fst row) = document_id
                  \<and> page_number (snd row) = ev_page item
                  \<and> span_x2 (fst row) > bbox_x1 (ev_bbox item)
                  \<and> span_x1 (fst row) < bbox_x2 (ev_bbox item)
                  \<and> span_y2 (fst row) > bbox_y1 (ev_bbox item)
                  \<and> span_y1 (fst row) < bbox_y2 (ev_bbox item))))"
proof -
  let ?R = "snd (ask_question env db settings document_id question)"
  let ?q = "py_strip question"
  have a: "ask_question env db settings document_id question
             = retrieval_stage env db1 settings document_id ?q"
    using ask_question_preflight[OF assms(1), of env] assms(2) by simp
  have g1: "env_retrieve env db1 document_id ?q = Inl exc \<longrightarrow> ?R = Inr canned_response"
    by (simp add: a retrieval_stage_def canned_eq)
  have g2: "env_retrieve env db1 document_id ?q = Inr retrieved
          \<and> (retrieved = [] \<or> \<not> has_sufficient_retrieval_confidence settings retrieved) \<longrightarrow>
        ?R = Inr canned_response"
    by (auto simp: a retrieval_stage_def canned_eq)
  have g3: "env_retrieve env db1 document_id ?q = Inr retrieved
          \<and> retrieved \<noteq> [] \<and> has_sufficient_retrieval_confidence settings retrieved
          \<and> context_chunks = py_slice_to retrieved (retrieval_max_context_chunks settings)
          \<and> env_llm env ?q context_chunks = Inr payload
          \<and> answer_and_citations (env_parse_uuid env) (env_repr env) payload = (answer, cited)
          \<and> valid = filter (\<lambda>cid. cid \<in> rc_id ` set context_chunks) cited \<longrightarrow>
        (require_llm_citations settings \<and> valid = [] \<longrightarrow> ?R = Inr canned_response)
        \<and> ((valid \<noteq> [] \<or> context_chunks \<noteq> [])
             \<and> (answer = [] \<or> answer_is_uncertain answer) \<longrightarrow> ?R = Inr canned_response)
        \<and> ((valid \<noteq> [] \<or> context_chunks \<noteq> [])
             \<and> evidence = build_evidence (env_similarity env) (env_format_1f env) db1 settings
                            ?q answer document_id
                            (select_chunks (cited_lookup_of context_chunks)
                               (if valid = [] then [rc_id (hd context_chunks)] else valid) [])
             \<and> (int (length evidence) < minimum_evidence_items settings
                  \<or> \<not> validate_evidence_mapping db1 document_id evidence) \<longrightarrow>
           ?R = Inr canned_response)"
  proof (intro impI, elim conjE)
    assume r: "env_retrieve env db1 document_id ?q = Inr retrieved" "retrieved \<noteq> []"
        "has_sufficient_retrieval_confidence settings retrieved"
      and c: "context_chunks = py_slice_to retrieved (retrieval_max_context_chunks settings)"
      and l: "env_llm env ?q context_chunks = Inr payload"
      and ac: "answer_and_citations (env_parse_uuid env) (env_repr env) payload = (answer, cited)"
      and v: "valid = filter (\<lambda>cid. cid \<in> rc_id ` set context_chunks) cited"
    have v': "valid_citations_of context_chunks cited = valid"
      by (simp add: v valid_citations_filter)
    have b: "?R = snd (citation_stage env db1 settings document_id ?q context_chunks answer cited)"
      using r c l ac by (simp add: a retrieval_stage_def generation_stage_def)
    have h1: "require_llm_citations settings \<and> valid = [] \<longrightarrow> ?R = Inr canned_response"
      by (simp add: b citation_stage_def Let_def v' canned_eq)
    have h2: "(valid \<noteq> [] \<or> context_chunks \<noteq> [])
             \<and> (answer = [] \<or> answer_is_uncertain answer) \<longrightarrow> ?R = Inr canned_response"
      by (auto simp: b citation_stage_def Let_def v' canned_eq split: list.splits)
    have h3: "(valid \<noteq> [] \<or> context_chunks \<noteq> [])
             \<and> evidence = build_evidence (env_similarity env) (env_format_1f env) db1 settings
                            ?q answer document_id
                            (select_chunks (cited_lookup_of context_chunks)
                               (if valid = [] then [rc_id (hd context_chunks)] else valid) [])
             \<and> (int (length evidence) < minimum_evidence_items settings
                  \<or> \<not> validate_evidence_mapping db1 document_id evidence) \<longrightarrow>
           ?R = Inr canned_response"
      by (auto simp: b citation_stage_def evidence_stage_def Let_def v' canned_eq split: list.splits)
    from h1 h2 h3 show "(require_llm_citations settings \<and> valid = [] \<longrightarrow> ?R = Inr canned_response)
        \<and> ((valid \<noteq> [] \<or> context_chunks \<noteq> [])
             \<and> (answer = [] \<or> answer_is_uncertain answer) \<longrightarrow> ?R = Inr canned_response)
        \<and> ((valid \<noteq> [] \<or> context_chunks \<noteq> [])
             \<and> evidence = build_evidence (env_similarity env) (env_format_1f env) db1 settings
                            ?q answer document_id
                            (select_chunks (cited_lookup_of context_chunks)
                               (if valid = [] then [rc_id (hd context_chunks)] else valid) [])
             \<and> (int (length evidence) < minimum_evidence_items settings
                  \<or> \<not> validate_evidence_mapping db1 document_id evidence) \<longrightarrow>
           ?R = Inr canned_response)"
      by blast
  qed
  have g4: "?R = Inr response \<and> resp_evidence response \<noteq> [] \<longrightarrow>
        (\<forall>item \<in> set (resp_evidence response).
            bbox_x1 (ev_bbox item) < bbox_x2 (ev_bbox item)
            \<and> bbox_y1 (ev_bbox item) < bbox_y2 (ev_bbox item)
            \<and> (\<exists>row \<in> set (span_page_rows db).
                  span_document_id (fst row) = document_id
                  \<and> page_number (snd row) = ev_page item
                  \<and> span_x2 (fst row) > bbox_x1 (ev_bbox item)
                  \<and> span_x1 (fst row) < bbox_x2 (ev_bbox item)
                  \<and> span_y2 (fst row) > bbox_y1 (ev_bbox item)
                  \<and> span_y1 (fst row) < bbox_y2 (ev_bbox item)))"
  proof (intro impI, elim conjE)
    assume "?R = Inr response" "resp_evidence response \<noteq> []"
    with grounded_ask_question[of db document_id env settings question]
    have "validate_evidence_mapping db document_id (resp_evidence response)"
      by (simp add: grounded_def)
    from validate_sound[OF this]
    show "\<forall>item \<in> set (resp_evidence response).
            bbox_x1 (ev_bbox item) < bbox_x2 (ev_bbox item)
            \<and> bbox_y1 (ev_bbox item) < bbox_y2 (ev_bbox item)
            \<and> (\<exists>row \<in> set (span_page_rows db).
                  span_document_id (fst row) = document_id
                  \<and> page_number (snd row) = ev_page item
                  \<and> span_x2 (fst row) > bbox_x1 (ev_bbox item)
                  \<and> span_x1 (fst row) < bbox_x2 (ev_bbox item)
                  \<and> span_y2 (fst row) > bbox_y1 (ev_bbox item)
                  \<and> span_y1 (fst row) < bbox_y2 (ev_bbox item))"
      by (simp add: span_overlaps_def)
  qed
  from g1 g2 g3 g4 show ?thesis by blast
qed

lemma sample_preflight: "preflight_ok sample_db qa_settings 1 s5_question"
  by code_simp

lemma sample_ensure:
  "ensure_chunk_embeddings (env_embed sample_env) sample_db 1 = Inr sample_db_embedded"
  by code_simp

lemma sample_ensure_retrieval_down:
  "ensure_chunk_embeddings (env_embed retrieval_down_env) sample_db 1 = Inr sample_db_embedded"
  by code_simp

lemma sample_run:
  "snd (ask_question sample_env sample_db qa_settings 1 s5_question) = Inr sample_response"
  by code_simp

theorem backfill_raises_retrieval_cans_witness:
  "preflight_ok sample_db qa_settings 1 s5_question
   \<and> env_parse_uuid provider_down_env ''doc-1'' = Some 1
   \<and> env_parse_uuid retrieval_down_env ''doc-1'' = Some 1
   \<and> missing_chunks_of sample_db 1 \<noteq> []
   \<and> ensure_chunk_embeddings (env_embed provider_down_env) sample_db 1 = Inl ''provider down''
   \<and> ask_document_question provider_down_env sample_db qa_settings ''doc-1'' s5_question
       = Inl (500, ''Question answering failed: Failed to prepare chunk embeddings: provider down'')
   \<and> env_retrieve retrieval_down_env sample_db_embedded 1 (py_strip s5_question)
       = Inl ''connection reset''
   \<and> ask_document_question retrieval_down_env sample_db qa_settings ''doc-1'' s5_question
       = Inr canned_response"
proof -
  have u1: "env_parse_uuid provider_down_env ''doc-1'' = Some 1" by code_simp
  have u2: "env_parse_uuid retrieval_down_env ''doc-1'' = Some 1" by code_simp
  have m: "missing_chunks_of sample_db 1 \<noteq> []" by code_simp
  have f: "env_embed provider_down_env (map chunk_text (take 64 (missing_chunks_of sample_db 1)))
             = Inl ''provider down''"
    by (simp add: provider_down_env_def)
  have r: "env_retrieve retrieval_down_env sample_db_embedded 1 (py_strip s5_question)
             = Inl ''connection reset''"
    by (simp add: retrieval_down_env_def)
  note t1 = backfill_raises_retrieval_cans[OF sample_preflight u1,
      where exc = "''provider down''" and ?db1.0 = sample_db_embedded]
  note t2 = backfill_raises_retrieval_cans[OF sample_preflight u2,
      where exc = "''connection reset''" and ?db1.0 = sample_db_embedded]
  from t1 m f have e: "ensure_chunk_embeddings (env_embed provider_down_env) sample_db 1
                         = Inl ''provider down''"
    by blast
  from t1 e have a: "ask_document_question provider_down_env sample_db qa_settings ''doc-1'' s5_question
       = Inl (500, ''Question answering failed: Failed to prepare chunk embeddings: provider down'')"
    by simp
  from t2 sample_ensure_retrieval_down r
  have b: "ask_document_question retrieval_down_env sample_db qa_settings ''doc-1'' s5_question
       = Inr canned_response"
    by blast
  from sample_preflight u1 u2 m e a r b show ?thesis by blast
qed

theorem gates_give_canned_response_witness:
  "preflight_ok sample_db qa_settings 1 s5_question
   \<and> ensure_chunk_embeddings (env_embed sample_env) sample_db 1 = Inr sample_db_embedded
   \<and> env_retrieve retrieval_down_env sample_db_embedded 1 (py_strip s5_question)
       = Inl ''connection reset''
   \<and> snd (ask_question retrieval_down_env sample_db qa_settings 1 s5_question) = Inr canned_response
   \<and> snd (ask_question sample_env sample_db qa_settings 1 s5_question) = Inr sample_response
   \<and> resp_evidence sample_response \<noteq> []
   \<and> list_all (\<lambda>item. bbox_x1 (ev_bbox item) < bbox_x2 (ev_bbox item)
                      \<and> bbox_y1 (ev_bbox item) < bbox_y2 (ev_bbox item)
                      \<and> list_ex (span_overlaps 1 item) (span_page_rows sample_db))
        (resp_evidence sample_response)"
proof -
  have r: "env_retrieve retrieval_down_env sample_db_embedded 1 (py_strip s5_question)
             = Inl ''connection reset''"
    by (simp add: retrieval_down_env_def)
  have ne: "resp_evidence sample_response \<noteq> []" by (simp add: sample_response_def)
  note t1 = gates_give_canned_response[OF sample_preflight sample_ensure_retrieval_down,
      where exc = "''connection reset''"]
  note t2 = gates_give_canned_response[OF sample_preflight sample_ensure,
      where response = sample_response]
  from t1 r have a: "snd (ask_question retrieval_down_env sample_db qa_settings 1 s5_question)
                       = Inr canned_response"
    by blast
  from t2 sample_run ne
  have "\<forall>item \<in> set (resp_evidence sample_response).
            bbox_x1 (ev_bbox item) < bbox_x2 (ev_bbox item)
            \<and> bbox_y1 (ev_bbox item) < bbox_y2 (ev_bbox item)
            \<and> (\<exists>row \<in> set (span_page_rows sample_db).
                  span_document_id (fst row) = 1
                  \<and> page_number (snd row) = ev_page item
                  \<and> span_x2 (fst row) > bbox_x1 (ev_bbox item)
                  \<and> span_x1 (fst row) < bbox_x2 (ev_bbox item)
                  \<and> span_y2 (fst row) > bbox_y1 (ev_bbox item)
                  \<and> span_y1 (fst row) < bbox_y2 (ev_bbox item))"
    by blast
  hence g: "list_all (\<lambda>item. bbox_x1 (ev_bbox item) < bbox_x2 (ev_bbox item)
                      \<and> bbox_y1 (ev_bbox item) < bbox_y2 (ev_bbox item)
                      \<and> list_ex (span_overlaps 1 item) (span_page_rows sample_db))
        (resp_evidence sample_response)"
    by (simp add: list_all_iff list_ex_iff span_overlaps_def)
  from sample_preflight sample_ensure r a sample_run ne g show ?thesis by blast
qed

theorem citations_extracted_and_intersected_witness:
  "list_all (\<lambda>v. sample_parse_uuid (py_str sample_repr v) = None)
      [JNull, JBool False, JInt 0, JFloat 0, JStr [], JList [], JDict []]
   \<and> answer_and_citations sample_parse_uuid sample_repr sample_payload
        = (''Dr. A. Patel'', [7, 9999])
   \<and> valid_citations_of [sample_retrieved] [7, 9999] = [7]
   \<and> require_llm_citations qa_settings
   \<and> valid_citations_of [sample_retrieved] [9999] = []
   \<and> snd (citation_stage sample_env sample_db_embedded qa_settings 1 s5_question
             [sample_retrieved] ''Dr. A. Patel'' [9999]) = Inr canned_response
   \<and> citation_stage sample_env sample_db_embedded (qa_settings \<lparr> require_llm_citations := False \<rparr>)
        1 s5_question [sample_retrieved] ''Dr. A. Patel'' [9999]
      = evidence_stage sample_env sample_db_embedded
          (qa_settings \<lparr> require_llm_citations := False \<rparr>) 1 s5_question ''Dr. A. Patel''
          [sample_retrieved]"
proof -
  have falsy: "\<forall>v. \<not> py_truthy v \<longrightarrow> sample_parse_uuid (py_str sample_repr v) = None"
  proof (intro allI impI)
    fix v assume "\<not> py_truthy v"
    thus "sample_parse_uuid (py_str sample_repr v) = None"
      by (cases v) (simp_all add: py_str_def sample_parse_uuid_def sample_repr_def)
  qed
  hence l: "list_all (\<lambda>v. sample_parse_uuid (py_str sample_repr v) = None)
      [JNull, JBool False, JInt 0, JFloat 0, JStr [], JList [], JDict []]"
    by simp
  have e: "answer_and_citations sample_parse_uuid sample_repr sample_payload
        = (''Dr. A. Patel'', [7, 9999])"
    by code_simp
  have mem: "(7 :: uuid) \<in> rc_id ` set [sample_retrieved]"
      "(9999 :: uuid) \<notin> rc_id ` set [sample_retrieved]"
    by (simp_all add: sample_retrieved_def)
  have rq: "require_llm_citations qa_settings"
    by (simp add: qa_settings_def default_settings_def)
  note t1 = citations_extracted_and_intersected[OF falsy, where context_chunks = "[sample_retrieved]"
      and ?c1.0 = 7 and ?c9999.0 = 9999 and cited = "[9999]" and settings = qa_settings
      and env = sample_env and db = sample_db_embedded and document_id = 1 and q = s5_question
      and answer = "''Dr. A. Patel''"]
  note t2 = citations_extracted_and_intersected[OF falsy, where context_chunks = "[sample_retrieved]"
      and cited = "[9999]" and settings = "qa_settings \<lparr> require_llm_citations := False \<rparr>"
      and env = sample_env and db = sample_db_embedded and document_id = 1 and q = s5_question
      and answer = "''Dr. A. Patel''"]
  from t1 mem have v: "valid_citations_of [sample_retrieved] [7, 9999] = [7]" by blast
  from t1 mem have n: "valid_citations_of [sample_retrieved] [9999] = []" by simp
  from t1 rq n have c: "snd (citation_stage sample_env sample_db_embedded qa_settings 1 s5_question
             [sample_retrieved] ''Dr. A. Patel'' [9999]) = Inr canned_response"
    by blast
  have au: "''Dr. A. Patel'' \<noteq> [] \<and> \<not> answer_is_uncertain ''Dr. A. Patel''" by code_simp
  have nr: "\<not> require_llm_citations (qa_settings \<lparr> require_llm_citations := False \<rparr>)"
    "[sample_retrieved] \<noteq> []" "distinct (map rc_id [sample_retrieved])"
    by simp_all
  from t2 n au nr
  have s: "citation_stage sample_env sample_db_embedded (qa_settings \<lparr> require_llm_citations := False \<rparr>)
        1 s5_question [sample_retrieved] ''Dr. A. Patel'' [9999]
      = evidence_stage sample_env sample_db_embedded
          (qa_settings \<lparr> require_llm_citations := False \<rparr>) 1 s5_question ''Dr. A. Patel''
          [sample_retrieved]"
    by (metis list.sel(1))
  from l e v rq n c s show ?thesis by blast
qed

section \<open>Properties of a failed ingestion\<close>

lemma quiet_refl: "quiet s s"
  by (simp add: quiet_def)

lemma quiet_trans: "quiet s s1 \<Longrightarrow> quiet s1 s2 \<Longrightarrow> quiet s s2"
  by (simp add: quiet_def)

lemma quiet_flush: "quiet s (db_flush s)"
  by (simp add: quiet_def db_flush_def)

lemma quiet_working: "quiet s (db_flush (s \<lparr> sess_working := w, sess_page_seq := n \<rparr>))"
  "quiet s (s \<lparr> sess_working := w, sess_span_seq := m \<rparr>)"
  by (simp_all add: quiet_def db_flush_def)

lemma quiet_reset: "quiet s (reset_document_rows s document_id)"
  by (simp add: quiet_def reset_document_rows_def db_flush_def)

lemma ingest_pages_quiet:
  "ingest_pages env settings document_id pages s span_refs = (s', r) \<Longrightarrow> quiet s s'"
proof (induction pages arbitrary: s span_refs)
  case Nil
  thus ?case by (simp add: quiet_refl)
next
  case (Cons indexed_page rest)
  show ?case
    using Cons.prems
    by (auto simp: Let_def quiet_def db_flush_def
        split: option.splits sum.splits if_splits dest!: Cons.IH)
qed

lemma try_block_raise_quiet:
  assumes "ingest_try_block env settings document_id s = (s1, Some exc)"
  shows "quiet s s1"
proof (cases "ie_open env")
  case (Inl e)
  with assms show ?thesis by (simp add: ingest_try_block_def quiet_refl)
next
  case (Inr pdf)
  show ?thesis
  proof (cases "length pdf = 0")
    case True
    with assms Inr show ?thesis by (simp add: ingest_try_block_def quiet_refl)
  next
    case False
    obtain s2 r where ip: "ingest_pages env settings document_id (zip [0..<length pdf] pdf)
        (reset_document_rows s document_id) [] = (s2, r)"
      by (cases "ingest_pages env settings document_id (zip [0..<length pdf] pdf)
        (reset_document_rows s document_id) []") auto
    from ingest_pages_quiet[OF ip] quiet_reset[of s document_id]
    have q: "quiet s s2" using quiet_trans by blast
    from assms Inr False ip have "s1 = s2"
      by (auto simp: ingest_try_block_def Let_def split: sum.splits)
    thus ?thesis using q by simp
  qed
qed

lemma find_map_update:
  "(\<And>x. P (f x) = P x) \<Longrightarrow>
   find P (map (\<lambda>d. if P d then f d else d) xs) = map_option f (find P xs)"
  by (induction xs) auto

lemma get_document_update:
  assumes "\<And>d. doc_id (f d) = doc_id d" and "get_document db document_id = Some d"
  shows "get_document (update_document db document_id f) document_id = Some (f d)"
  using assms(2) find_map_update[of "\<lambda>d. doc_id d = document_id" f "db_documents db"] assms(1)
  by (simp add: get_document_def update_document_def)

lemma mark_error_id: "doc_id (mark_error exc d) = doc_id d"
  by (simp add: mark_error_def)

text \<open>
  Claim C7. Take a fresh session in which the document row exists, and a run whose
  \<^verbatim>\<open>try\<close> block raises an exception. Then no exception leaves
  \<^verbatim>\<open>process_document_metadata\<close>; the committed page, span and chunk rows are those from
  before the run, so no partial row survives; the committed document has status
  \<open>error\<close>, no page count or page size, and the error message
  ``Document processing failed: '' followed by the text of the exception; and apart from
  flushes the session has issued exactly a rollback and then a commit, the commit that
  records the error.
\<close>

theorem failed_ingestion_rolls_back:
  assumes "sess_working s = sess_committed s"
    and "get_document (sess_committed s) document_id = Some d"
    and "snd (ingest_try_block env settings document_id s) = Some exc"
    and "final = snd (process_document_metadata env settings document_id s)"
  shows "fst (process_document_metadata env settings document_id s) = None
    \<and> db_pages (sess_committed final) = db_pages (sess_committed s)
    \<and> db_spans (sess_committed final) = db_spans (sess_committed s)
    \<and> db_chunks (sess_committed final) = db_chunks (sess_committed s)
    \<and> get_document (sess_committed final) document_id
          = Some (d \<lparr> doc_status := ''error'', doc_total_pages := None, doc_page_width := None,
                      doc_page_height := None,
                      doc_error_message := Some (''Document processing failed: '' @ exc) \<rparr>)
    \<and> filter (\<lambda>op. op \<noteq> OpFlush) (sess_trace final)
          = filter (\<lambda>op. op \<noteq> OpFlush) (sess_trace s) @ [OpRollback, OpCommit]
    \<and> sess_working final = sess_committed final"
proof -
  obtain s1 where tb: "ingest_try_block env settings document_id s = (s1, Some exc)"
    using assms(3) by (cases "ingest_try_block env settings document_id s") auto
  from try_block_raise_quiet[OF tb]
  have c: "sess_committed s1 = sess_committed s"
    and t: "filter (\<lambda>op. op \<noteq> OpFlush) (sess_trace s1)
              = filter (\<lambda>op. op \<noteq> OpFlush) (sess_trace s)"
    by (simp_all add: quiet_def)
  have g: "get_document (sess_working (db_rollback s1)) document_id = Some d"
    using assms(2) c by (simp add: db_rollback_def)
  have p: "process_document_metadata env settings document_id s
      = (None, db_commit ((db_rollback s1) \<lparr> sess_working :=
           update_document (sess_working (db_rollback s1)) document_id (mark_error exc) \<rparr>))"
    using assms(1,2) tb g by (simp add: process_document_metadata_def Let_def)
  have f: "final = db_commit ((db_rollback s1) \<lparr> sess_working :=
           update_document (sess_committed s) document_id (mark_error exc) \<rparr>)"
    using assms(4) p c by (simp add: db_rollback_def)
  have u: "get_document (update_document (sess_committed s) document_id (mark_error exc)) document_id
             = Some (mark_error exc d)"
    using mark_error_id assms(2) by (rule get_document_update)
  show ?thesis
    using p u t
    by (simp add: f db_commit_def db_rollback_def update_document_def mark_error_def)
qed

theorem failed_ingestion_rolls_back_witness:
  "sess_working fresh_session = sess_committed fresh_session
   \<and> get_document (sess_committed fresh_session) 1 = Some processing_document
   \<and> snd (ingest_try_block broken_pdf_env default_settings 1 fresh_session)
        = Some ''cannot render page''
   \<and> length (db_pages (sess_working (fst (ingest_try_block broken_pdf_env default_settings 1
                                              fresh_session)))) = 1
   \<and> length (db_spans (sess_working (fst (ingest_try_block broken_pdf_env default_settings 1
                                              fresh_session)))) = 2
   \<and> fst (process_document_metadata broken_pdf_env default_settings 1 fresh_session) = None
   \<and> db_pages (sess_committed (snd (process_document_metadata broken_pdf_env default_settings 1
                                        fresh_session))) = []
   \<and> db_spans (sess_committed (snd (process_document_metadata broken_pdf_env default_settings 1
                                        fresh_session))) = []
   \<and> db_chunks (sess_committed (snd (process_document_metadata broken_pdf_env default_settings 1
                                        fresh_session))) = []
   \<and> get_document (sess_committed (snd (process_document_metadata broken_pdf_env default_settings 1
                                            fresh_session))) 1
        = Some (processing_document \<lparr> doc_status := ''error'',
                  doc_error_message := Some ''Document processing failed: cannot render page'' \<rparr>)
   \<and> sess_trace (snd (process_document_metadata broken_pdf_env default_settings 1 fresh_session))
        = [OpFlush, OpFlush, OpFlush, OpRollback, OpCommit]"
proof -
  have a: "sess_working fresh_session = sess_committed fresh_session"
    by (simp add: fresh_session_def)
  have b: "get_document (sess_committed fresh_session) 1 = Some processing_document"
    by code_simp
  have c: "snd (ingest_try_block broken_pdf_env default_settings 1 fresh_session)
        = Some ''cannot render page''"
    by code_simp
  have p: "length (db_pages (sess_working (fst (ingest_try_block broken_pdf_env default_settings 1
                                              fresh_session)))) = 1"
    "length (db_spans (sess_working (fst (ingest_try_block broken_pdf_env default_settings 1
                                              fresh_session)))) = 2"
    by code_simp+
  have tr: "sess_trace (snd (process_document_metadata broken_pdf_env default_settings 1 fresh_session))
        = [OpFlush, OpFlush, OpFlush, OpRollback, OpCommit]"
    by code_simp
  have e: "db_pages (sess_committed fresh_session) = []" "db_spans (sess_committed fresh_session) = []"
    "db_chunks (sess_committed fresh_session) = []"
    by (simp_all add: fresh_session_def processing_db_def)
  note th = failed_ingestion_rolls_back[OF a b c refl]
  from th e have r: "fst (process_document_metadata broken_pdf_env default_settings 1 fresh_session) = None
   \<and> db_pages (sess_committed (snd (process_document_metadata broken_pdf_env default_settings 1
                                        fresh_session))) = []
   \<and> db_spans (sess_committed (snd (process_document_metadata broken_pdf_env default_settings 1
                                        fresh_session))) = []
   \<and> db_chunks (sess_committed (snd (process_document_metadata broken_pdf_env default_settings 1
                                        fresh_session))) = []
   \<and> get_document (sess_committed (snd (process_document_metadata broken_pdf_env default_settings 1
                                            fresh_session))) 1
        = Some (processing_document \<lparr> doc_status := ''error'',
                  doc_error_message := Some ''Document processing failed: cannot render page'' \<rparr>)"
    by (simp add: processing_document_def)
  from a b c p r tr show ?thesis by blast
qed

section \<open>The citation substitution on an empty context\<close>

text \<open>
  Claim C1, where the code departs from it. With \<open>require_llm_citations\<close> unset and
  \<open>retrieval_max_context_chunks = 0\<close> the context is the empty slice of a non-empty,
  confident retrieval. The model returns an empty answer, so the empty-answer gate ought
  to give the canned response; but \<^verbatim>\<open>context_chunks[0]\<close> is read before that gate, and
  \<^verbatim>\<open>ask_question\<close> raises \<^verbatim>\<open>IndexError\<close>, which the route turns into HTTP 500.
\<close>

theorem empty_answer_raises_index_error:
  "preflight_ok sample_db no_context_settings 1 s5_question
   \<and> ensure_chunk_embeddings (env_embed empty_answer_env) sample_db 1 = Inr sample_db_embedded
   \<and> env_retrieve empty_answer_env sample_db_embedded 1 (py_strip s5_question)
        = Inr [sample_retrieved]
   \<and> has_sufficient_retrieval_confidence no_context_settings [sample_retrieved]
   \<and> env_llm empty_answer_env (py_strip s5_question)
         (py_slice_to [sample_retrieved] (retrieval_max_context_chunks no_context_settings))
        = Inr empty_answer_payload
   \<and> answer_and_citations (env_parse_uuid empty_answer_env) (env_repr empty_answer_env)
         empty_answer_payload = ([], [])
   \<and> ask_question empty_answer_env sample_db no_context_settings 1 s5_question
        = ([], Inl IndexError)
   \<and> snd (ask_question empty_answer_env sample_db no_context_settings 1 s5_question)
        \<noteq> Inr canned_response
   \<and> ask_document_question empty_answer_env sample_db no_context_settings ''doc-1'' s5_question
        = Inl (500, ''Internal server error'')"
proof -
  have a: "preflight_ok sample_db no_context_settings 1 s5_question" by code_simp
  have b: "ensure_chunk_embeddings (env_embed empty_answer_env) sample_db 1 = Inr sample_db_embedded"
    by code_simp
  have c: "env_retrieve empty_answer_env sample_db_embedded 1 (py_strip s5_question)
        = Inr [sample_retrieved]"
    by (simp add: empty_answer_env_def sample_env_def)
  have d: "has_sufficient_retrieval_confidence no_context_settings [sample_retrieved]"
    by code_simp
  have e: "env_llm empty_answer_env (py_strip s5_question)
         (py_slice_to [sample_retrieved] (retrieval_max_context_chunks no_context_settings))
        = Inr empty_answer_payload"
    by (simp add: empty_answer_env_def)
  have f: "answer_and_citations (env_parse_uuid empty_answer_env) (env_repr empty_answer_env)
         empty_answer_payload = ([], [])"
    by code_simp
  have g: "ask_question empty_answer_env sample_db no_context_settings 1 s5_question
        = ([], Inl IndexError)"
    by code_simp
  have h: "ask_document_question empty_answer_env sample_db no_context_settings ''doc-1'' s5_question
        = Inl (500, ''Internal server error'')"
    by code_simp
  from a b c d e f g h show ?thesis by simp
qed

text \<open>
  Claim C5, where the code departs from it. With \<open>require_llm_citations\<close> unset and
  \<open>retrieval_max_context_chunks = 0\<close>, a retrieval of one chunk and a model that cites only
  a chunk outside the context: no citation is valid, so the first retrieved chunk ought to
  be substituted as the single citation; but the substitution reads
  \<^verbatim>\<open>context_chunks[0]\<close> of the empty context and raises \<^verbatim>\<open>IndexError\<close>.
\<close>

theorem top1_substitution_raises_index_error:
  "env_retrieve uncited_env sample_db_embedded 1 (py_strip s5_question) = Inr [sample_retrieved]
   \<and> has_sufficient_retrieval_confidence no_context_settings [sample_retrieved]
   \<and> py_slice_to [sample_retrieved] (retrieval_max_context_chunks no_context_settings) = []
   \<and> \<not> require_llm_citations no_context_settings
   \<and> answer_and_citations (env_parse_uuid uncited_env) (env_repr uncited_env) uncited_payload
        = (''Dr. A. Patel'', [9999])
   \<and> valid_citations_of [] [9999] = []
   \<and> citation_stage uncited_env sample_db_embedded no_context_settings 1 (py_strip s5_question)
         [] ''Dr. A. Patel'' [9999] = ([], Inl IndexError)
   \<and> ask_question uncited_env sample_db no_context_settings 1 s5_question = ([], Inl IndexError)"
proof -
  have a: "env_retrieve uncited_env sample_db_embedded 1 (py_strip s5_question) = Inr [sample_retrieved]"
    by (simp add: uncited_env_def sample_env_def)
  have b: "has_sufficient_retrieval_confidence no_context_settings [sample_retrieved]"
    by code_simp
  have c: "py_slice_to [sample_retrieved] (retrieval_max_context_chunks no_context_settings) = []"
    by (simp add: py_slice_to_def no_context_settings_def)
  have d: "\<not> require_llm_citations no_context_settings"
    by (simp add: no_context_settings_def)
  have e: "answer_and_citations (env_parse_uuid uncited_env) (env_repr uncited_env) uncited_payload
        = (''Dr. A. Patel'', [9999])"
    by code_simp
  have f: "valid_citations_of [] [9999] = []"
    by (simp add: valid_citations_of_def cited_lookup_of_def)
  have g: "citation_stage uncited_env sample_db_embedded no_context_settings 1 (py_strip s5_question)
         [] ''Dr. A. Patel'' [9999] = ([], Inl IndexError)"
    using d f by (simp add: citation_stage_def Let_def)
  have h: "ask_question uncited_env sample_db no_context_settings 1 s5_question = ([], Inl IndexError)"
    by code_simp
  from a b c d e f g h show ?thesis by simp
qed

end
